theory Spec2Isabelle
  imports Main
begin

section \<open>Provider configuration of the Artifactory Terraform provider\<close>

text \<open>
  The development embeds two pieces of the repository: the method
  \<open>(*ArtifactoryProvider).Configure\<close> of package \<open>provider\<close>, and the Gradle
  local-repository resource of package \<open>artifactory\<close>. Go strings are HOL
  strings, a Go \<open>error\<close> is the text that \<open>err.Error()\<close> yields, and a
  \<open>(value, error)\<close> result whose value is dropped on failure is a sum with
  the error on the left.
\<close>

subsection \<open>Framework values\<close>

text \<open>
  \<open>types.String\<close> and \<open>types.Bool\<close> of the plugin framework are null, unknown
  or known. \<open>ValueString\<close> gives the empty string and \<open>ValueBool\<close> gives false
  unless the value is known; \<open>IsNull\<close> holds of the null value only.
\<close>

datatype tf_string = StringNull | StringUnknown | StringValue string

fun ValueString :: "tf_string \<Rightarrow> string" where
  "ValueString (StringValue s) = s"
| "ValueString _ = ''''"

datatype tf_bool = BoolNull | BoolUnknown | BoolValue bool

fun IsNull :: "tf_bool \<Rightarrow> bool" where
  "IsNull BoolNull = True"
| "IsNull _ = False"

fun ValueBool :: "tf_bool \<Rightarrow> bool" where
  "ValueBool (BoolValue b) = b"
| "ValueBool _ = False"

text \<open>The provider data model, \<open>ArtifactoryProviderModel\<close>.\<close>

record ArtifactoryProviderModel =
  Url :: tf_string
  AccessToken :: tf_string
  ApiKey :: tf_string
  OIDCProviderName :: tf_string
  CheckLicense :: tf_bool

subsection \<open>Diagnostics\<close>

datatype severity = SeverityError | SeverityWarning

record diagnostic =
  Severity :: severity
  Summary :: string
  Detail :: string

type_synonym diagnostics = "diagnostic list"

text \<open>
  \<open>Diagnostics.Append\<close> of the framework adds each diagnostic that the
  collection does not hold yet, in order; \<open>AddError\<close> appends one diagnostic
  of error severity; \<open>HasError\<close> looks for a diagnostic of error severity.
\<close>

fun Append :: "diagnostics \<Rightarrow> diagnostics \<Rightarrow> diagnostics" where
  "Append ds [] = ds"
| "Append ds (d # rest) = Append (if d \<in> set ds then ds else ds @ [d]) rest"

definition NewErrorDiagnostic :: "string \<Rightarrow> string \<Rightarrow> diagnostic" where
  "NewErrorDiagnostic summary detail =
     \<lparr>Severity = SeverityError, Summary = summary, Detail = detail\<rparr>"

definition AddError :: "diagnostics \<Rightarrow> string \<Rightarrow> string \<Rightarrow> diagnostics" where
  "AddError ds summary detail = Append ds [NewErrorDiagnostic summary detail]"

fun HasError :: "diagnostics \<Rightarrow> bool" where
  "HasError [] = False"
| "HasError (d # ds) = (Severity d = SeverityError \<or> HasError ds)"

subsection \<open>Environment\<close>

text \<open>
  The process environment maps a variable's name to its value; \<open>os.Getenv\<close>
  reads an unset variable as the empty string.
\<close>

type_synonym environ = "string \<rightharpoonup> string"

definition Getenv :: "environ \<Rightarrow> string \<Rightarrow> string" where
  "Getenv env k = (case env k of None \<Rightarrow> '''' | Some v \<Rightarrow> v)"

text \<open>
  Modelled from the spec: \<open>util.CheckEnvVars\<close> is a function of the shared
  library \<open>terraform-provider-shared\<close>, whose source is not part of the
  repository. The specification has the listed variables "checked in that
  order, first non-empty wins", and the call site's comment reads "first
  available OS variable will be assigned to the var"; the last argument is
  the value given when no listed variable is set.
\<close>

fun CheckEnvVars :: "environ \<Rightarrow> string list \<Rightarrow> string \<Rightarrow> string" where
  "CheckEnvVars env [] dv = dv"
| "CheckEnvVars env (k # ks) dv =
     (if Getenv env k \<noteq> '''' then Getenv env k else CheckEnvVars env ks dv)"

subsection \<open>Collaborators\<close>

text \<open>
  The HTTP client builder, the OIDC exchange, the license check, the version
  lookup and the usage report live in the shared library. \<open>Configure\<close> is
  embedded over any implementation of them; \<open>'c\<close> is the type of the Resty
  client handle. \<open>client.AddAuth\<close> returns a pair, since \<open>Configure\<close> keeps
  the returned handle whether or not the error is nil.
\<close>

record 'c collaborators =
  Build :: "string \<Rightarrow> string \<Rightarrow> string + 'c"
  OIDCTokenExchange :: "'c \<Rightarrow> string \<Rightarrow> string + string"
  AddAuth :: "'c \<Rightarrow> string \<Rightarrow> string \<Rightarrow> 'c \<times> string option"
  CheckArtifactoryLicense :: "'c \<Rightarrow> string list \<Rightarrow> string option"
  GetArtifactoryVersion :: "'c \<Rightarrow> string + string"

text \<open>
  The calls that \<open>Configure\<close> makes to its collaborators are recorded in
  the order in which they are made, each with its arguments; \<open>SendUsage\<close> is
  the call started with \<open>go\<close>, whose outcome is never read.
\<close>

datatype 'c call =
  CallBuild string string
| CallOIDCTokenExchange 'c string
| CallAddAuth 'c string string
| CallCheckArtifactoryLicense 'c "string list"
| CallGetArtifactoryVersion 'c
| CallSendUsage 'c string string

subsection \<open>Request and response\<close>

record 'c ProviderMetadata =
  Client :: 'c
  ProductId :: string
  ArtifactoryVersion :: string

text \<open>
  \<open>ConfigGet\<close> is the outcome of \<open>req.Config.Get(ctx, &config)\<close>: the
  diagnostics of decoding the provider block, and the decoded model.
\<close>

record ConfigureRequest =
  ConfigGet :: "diagnostics \<times> ArtifactoryProviderModel"
  TerraformVersion :: string

text \<open>
  Besides the three fields of \<open>provider.ConfigureResponse\<close> the response of
  the embedding carries the record of collaborator calls and, when
  \<open>Configure\<close> left through one of its \<open>return\<close> statements, the source line
  of that statement (\<open>None\<close> when it ran to its end).
\<close>

record 'c ConfigureResponse =
  Diagnostics :: diagnostics
  DataSourceData :: "'c ProviderMetadata option"
  ResourceData :: "'c ProviderMetadata option"
  calls :: "'c call list"
  returned_at :: "nat option"

definition new_response :: "'c ConfigureResponse" where
  "new_response =
     \<lparr>Diagnostics = [], DataSourceData = None, ResourceData = None,
      calls = [], returned_at = None\<rparr>"

definition add_error ::
  "string \<Rightarrow> string \<Rightarrow> 'c ConfigureResponse \<Rightarrow> 'c ConfigureResponse" where
  "add_error summary detail resp =
     resp\<lparr>Diagnostics := AddError (Diagnostics resp) summary detail\<rparr>"

definition record_call :: "'c call \<Rightarrow> 'c ConfigureResponse \<Rightarrow> 'c ConfigureResponse" where
  "record_call c resp = resp\<lparr>calls := calls resp @ [c]\<rparr>"

definition return_at :: "nat \<Rightarrow> 'c ConfigureResponse \<Rightarrow> 'c ConfigureResponse" where
  "return_at line resp = resp\<lparr>returned_at := Some line\<rparr>"

subsection \<open>Configure\<close>

text \<open>
  The body of \<open>Configure\<close> in three parts, in source order. Lines 161 to 190:
  the license check, the version lookup, the usage report and the release of
  the metadata.
\<close>

definition Configure_preflight ::
  "string \<Rightarrow> 'c collaborators \<Rightarrow> ConfigureRequest \<Rightarrow> ArtifactoryProviderModel \<Rightarrow> 'c \<Rightarrow>
   'c ConfigureResponse \<Rightarrow> 'c ConfigureResponse" where
  "Configure_preflight productId cl req config restyClient resp0 =
     (let checked =
            (if IsNull (CheckLicense config) \<or> ValueBool (CheckLicense config)
             then (record_call (CallCheckArtifactoryLicense restyClient
                                  [''Enterprise'', ''Commercial'', ''Edge'']) resp0,
                   CheckArtifactoryLicense cl restyClient
                     [''Enterprise'', ''Commercial'', ''Edge''])
             else (resp0, None))
      in case snd checked of
           Some err \<Rightarrow>
             return_at 167 (add_error ''Error checking Artifactory license'' err (fst checked))
         | None \<Rightarrow>
             (let resp1 = record_call (CallGetArtifactoryVersion restyClient) (fst checked)
              in case GetArtifactoryVersion cl restyClient of
                   Inl err \<Rightarrow>
                     return_at 177
                       (add_error ''Error getting Artifactory version''
                          (''The provider functionality might be affected by the absence of Artifactory version in the context. '' @ err)
                          resp1)
                 | Inr version \<Rightarrow>
                     (let featureUsage = ''Terraform/'' @ TerraformVersion req;
                          resp2 = record_call (CallSendUsage restyClient productId featureUsage) resp1;
                          meta = \<lparr>Client = restyClient, ProductId = productId,
                                  ArtifactoryVersion = version\<rparr>
                      in resp2\<lparr>DataSourceData := Some meta, ResourceData := Some meta\<rparr>)))"

text \<open>
  Lines 121 to 159: the OIDC exchange, the override chain of the access
  token, the check that a credential is present, and \<open>client.AddAuth\<close>. The
  block that reports an error of \<open>client.AddAuth\<close> has no \<open>return\<close>.
\<close>

definition Configure_credentials ::
  "string \<Rightarrow> 'c collaborators \<Rightarrow> ConfigureRequest \<Rightarrow> ArtifactoryProviderModel \<Rightarrow> string \<Rightarrow>
   'c \<Rightarrow> 'c ConfigureResponse \<Rightarrow> 'c ConfigureResponse" where
  "Configure_credentials productId cl req config envAccessToken restyClient resp0 =
     (let resp1 = record_call
                    (CallOIDCTokenExchange restyClient (ValueString (OIDCProviderName config)))
                    resp0
      in case OIDCTokenExchange cl restyClient (ValueString (OIDCProviderName config)) of
           Inl err \<Rightarrow> return_at 127 (add_error ''Failed OIDC ID token exchange'' err resp1)
         | Inr oidcAccessToken \<Rightarrow>
             (let accessToken1 =
                    (if oidcAccessToken \<noteq> '''' then oidcAccessToken else envAccessToken);
                  accessToken =
                    (if ValueString (AccessToken config) \<noteq> ''''
                     then ValueString (AccessToken config) else accessToken1);
                  apiKey = ValueString (ApiKey config)
              in if apiKey = '''' \<and> accessToken = ''''
                 then return_at 150
                        (add_error ''Missing JFrog API key or Access Token''
                           ''While configuring the provider, the API key or Access Token was not found in the environment variables or provider configuration attributes.''
                           resp1)
                 else
                   (let authed = AddAuth cl restyClient apiKey accessToken;
                        resp2 = record_call (CallAddAuth restyClient apiKey accessToken) resp1;
                        resp3 = (case snd authed of
                                   Some err \<Rightarrow>
                                     add_error ''Error adding Auth to Resty client'' err resp2
                                 | None \<Rightarrow> resp2)
                    in Configure_preflight productId cl req config (fst authed) resp3)))"

text \<open>
  Lines 87 to 119: the environment, the provider block, the URL and
  \<open>client.Build\<close>. \<open>productId\<close> is a variable of the package that is declared
  in another file and is taken as an argument, as is the environment.
\<close>

definition Configure ::
  "environ \<Rightarrow> string \<Rightarrow> 'c collaborators \<Rightarrow> ConfigureRequest \<Rightarrow> 'c ConfigureResponse" where
  "Configure env productId cl req =
     (let envUrl = CheckEnvVars env [''JFROG_URL'', ''ARTIFACTORY_URL''] '''';
          accessToken =
            CheckEnvVars env [''JFROG_ACCESS_TOKEN'', ''ARTIFACTORY_ACCESS_TOKEN''] '''';
          config = snd (ConfigGet req);
          resp0 = new_response\<lparr>Diagnostics := Append [] (fst (ConfigGet req))\<rparr>
      in if HasError (Diagnostics resp0) then return_at 95 resp0
         else
           (let url = (if ValueString (Url config) \<noteq> ''''
                       then ValueString (Url config) else envUrl)
            in if url = ''''
               then return_at 109
                      (add_error ''Missing URL Configuration''
                         ''While configuring the provider, the url was not found in the JFROG_URL/ARTIFACTORY_URL environment variable or provider configuration block url attribute.''
                         resp0)
               else
                 (let resp1 = record_call (CallBuild url productId) resp0
                  in case Build cl url productId of
                       Inl err \<Rightarrow>
                         return_at 118 (add_error ''Error creating Resty client'' err resp1)
                     | Inr restyClient \<Rightarrow>
                         Configure_credentials productId cl req config accessToken
                           restyClient resp1)))"

subsection \<open>A client and a server for the examples\<close>

text \<open>
  The examples run \<open>Configure\<close> against a small client handle that keeps
  what the collaborators were given: the URL and product id of
  \<open>client.Build\<close> and the credential attached by \<open>client.AddAuth\<close>, an API key
  header or a bearer token.
\<close>

datatype credential = ApiKeyHeader string | BearerToken string

record resty_client =
  BaseURL :: string
  UserAgent :: string
  Credential :: "credential option"

text \<open>
  Modelled from the spec: \<open>client.AddAuth\<close> is a function of the shared
  library \<open>terraform-provider-shared\<close>, whose source is not part of the
  repository. The specification has it attach "one of two credential types
  (API key or bearer token)" and says that "if both an access-token and API
  key resolve, the access-token takes precedence at the
  authentication-attachment step"; the description of the \<open>api_key\<close>
  attribute in the provider schema says the same ("If \<open>access_token\<close>
  attribute, \<open>JFROG_ACCESS_TOKEN\<close> or \<open>ARTIFACTORY_ACCESS_TOKEN\<close> environment
  variable is set, the provider will ignore this attribute"). The
  specification is silent on the call with two empty strings, which
  \<open>Configure\<close> never makes; the model answers it with an error.
\<close>

definition AddAuth_model :: "resty_client \<Rightarrow> string \<Rightarrow> string \<Rightarrow> resty_client \<times> string option" where
  "AddAuth_model c apiKey accessToken =
     (if accessToken \<noteq> '''' then (c\<lparr>Credential := Some (BearerToken accessToken)\<rparr>, None)
      else if apiKey \<noteq> '''' then (c\<lparr>Credential := Some (ApiKeyHeader apiKey)\<rparr>, None)
      else (c, Some ''no authentication details supplied''))"

text \<open>
  A server whose OIDC exchange, license check and version lookup answer as
  given. Its exchange hands out no token when no provider name is passed.
\<close>

definition example_server ::
  "string + string \<Rightarrow> string option \<Rightarrow> string + string \<Rightarrow> resty_client collaborators" where
  "example_server oidc license version =
     \<lparr>Build = (\<lambda>url productId.
                 Inr \<lparr>BaseURL = url, UserAgent = productId, Credential = None\<rparr>),
      OIDCTokenExchange = (\<lambda>c name. if name = '''' then Inr '''' else oidc),
      AddAuth = AddAuth_model,
      CheckArtifactoryLicense = (\<lambda>c tiers. license),
      GetArtifactoryVersion = (\<lambda>c. version)\<rparr>"

definition example_config :: ArtifactoryProviderModel where
  "example_config =
     \<lparr>Url = StringValue ''https://x.example/artifactory'', AccessToken = StringNull,
      ApiKey = StringValue ''k1'', OIDCProviderName = StringNull, CheckLicense = BoolNull\<rparr>"

definition example_request :: "ArtifactoryProviderModel \<Rightarrow> ConfigureRequest" where
  "example_request config = \<lparr>ConfigGet = ([], config), TerraformVersion = ''1.5.7''\<rparr>"

text \<open>
  A server like the one above whose \<open>client.AddAuth\<close> fails, handing back the
  client it was given.
\<close>

definition failing_auth_server :: "resty_client collaborators" where
  "failing_auth_server =
     (example_server (Inl ''no identity token'') None (Inr ''7.90.1''))
       \<lparr>AddAuth := (\<lambda>c apiKey accessToken. (c, Some ''credentials rejected''))\<rparr>"

section \<open>The Gradle local repository resource\<close>

text \<open>
  \<open>LocalRepositoryBaseParams\<close> is declared in another file of the package;
  of its fields \<open>PackageType\<close> and \<open>Rclass\<close> are written here, and the others
  are kept as one value of type \<open>'b\<close>. Go's \<open>int\<close> is read as an integer: the
  code does no arithmetic on it.
\<close>

record 'b LocalRepositoryBaseParams =
  PackageType :: string
  Rclass :: string
  other_fields :: 'b

record 'b GradleLocalRepositoryParams =
  BaseParams :: "'b LocalRepositoryBaseParams"
  ChecksumPolicyType :: string
  SnapshotVersionBehavior :: string
  MaxUniqueSnapshots :: int
  HandleReleases :: bool
  HandleSnapshots :: bool
  SuppressPomConsistencyChecks :: bool

text \<open>
  The entries that \<open>gradleLocalSchema\<close> adds to the base schema, with their
  type, the \<open>Optional\<close> flag and the default (descriptions left out).
  \<open>mergeSchema\<close> and \<open>baseLocalRepoSchema\<close> come from the package.
\<close>

datatype value_type = TypeString | TypeInt | TypeBool

datatype default_value = DefaultNil | DefaultString string | DefaultBool bool

record Schema =
  Type :: value_type
  Optional :: bool
  Default :: default_value

definition gradleLocalSchema :: "('s \<Rightarrow> (string \<times> Schema) list \<Rightarrow> 's) \<Rightarrow> 's \<Rightarrow> 's" where
  "gradleLocalSchema mergeSchema baseLocalRepoSchema =
     mergeSchema baseLocalRepoSchema
       [(''checksum_policy_type'',
           \<lparr>Type = TypeString, Optional = True, Default = DefaultString ''client-checksums''\<rparr>),
        (''snapshot_version_behavior'',
           \<lparr>Type = TypeString, Optional = True, Default = DefaultString ''unique''\<rparr>),
        (''max_unique_snapshots'',
           \<lparr>Type = TypeInt, Optional = True, Default = DefaultNil\<rparr>),
        (''handle_releases'',
           \<lparr>Type = TypeBool, Optional = True, Default = DefaultBool True\<rparr>),
        (''handle_snapshots'',
           \<lparr>Type = TypeBool, Optional = True, Default = DefaultBool True\<rparr>),
        (''suppress_pom_consistency_checks'',
           \<lparr>Type = TypeBool, Optional = True, Default = DefaultBool True\<rparr>)]"

text \<open>
  The readers of the resource data and \<open>unpackBaseLocalRepo\<close> are functions
  of the package declared in other files; \<open>Id\<close> is the method that
  \<open>GradleLocalRepositoryParams\<close> inherits from its embedded base. \<open>'d\<close> is the
  type of \<open>*schema.ResourceData\<close>.
\<close>

record ('d, 'b) package_helpers =
  unpackBaseLocalRepo :: "'d \<Rightarrow> string \<Rightarrow> 'b LocalRepositoryBaseParams"
  getString :: "'d \<Rightarrow> string \<Rightarrow> bool \<Rightarrow> string"
  getInt :: "'d \<Rightarrow> string \<Rightarrow> bool \<Rightarrow> int"
  getBool :: "'d \<Rightarrow> string \<Rightarrow> bool \<Rightarrow> bool"
  Id :: "'b LocalRepositoryBaseParams \<Rightarrow> string"

text \<open>
  \<open>unPackLocalGradleRepository\<close> returns the parameters, their id and the
  error, \<open>None\<close> for \<open>nil\<close>.
\<close>

definition unPackLocalGradleRepository ::
  "('d, 'b) package_helpers \<Rightarrow> 'd \<Rightarrow> 'b GradleLocalRepositoryParams \<times> string \<times> string option" where
  "unPackLocalGradleRepository h data =
     (let repo =
            \<lparr>BaseParams = unpackBaseLocalRepo h data ''gradle'',
             ChecksumPolicyType = getString h data ''checksum_policy_type'' False,
             SnapshotVersionBehavior = getString h data ''snapshot_version_behavior'' False,
             MaxUniqueSnapshots = getInt h data ''max_unique_snapshots'' False,
             HandleReleases = getBool h data ''handle_releases'' False,
             HandleSnapshots = getBool h data ''handle_snapshots'' False,
             SuppressPomConsistencyChecks =
               getBool h data ''suppress_pom_consistency_checks'' False\<rparr>
      in (repo, Id h (BaseParams repo), None))"

text \<open>
  The constructor that \<open>resourceArtifactoryLocalGradleRepository\<close> passes on:
  a struct literal that sets \<open>PackageType\<close> and \<open>Rclass\<close> and leaves every
  other field at its zero value; \<open>zero\<close> is the zero value of the base's
  other fields.
\<close>

definition newGradleLocalRepositoryParams :: "'b \<Rightarrow> unit \<Rightarrow> 'b GradleLocalRepositoryParams" where
  "newGradleLocalRepositoryParams zero = (\<lambda>_.
     \<lparr>BaseParams = \<lparr>PackageType = ''gradle'', Rclass = ''local'', other_fields = zero\<rparr>,
      ChecksumPolicyType = '''', SnapshotVersionBehavior = '''', MaxUniqueSnapshots = 0,
      HandleReleases = False, HandleSnapshots = False,
      SuppressPomConsistencyChecks = False\<rparr>)"

text \<open>
  \<open>mkResourceSchema\<close> and \<open>universalPack\<close> are functions of the package
  declared in other files.
\<close>

definition resourceArtifactoryLocalGradleRepository ::
  "('s \<Rightarrow> 'p \<Rightarrow> ('d \<Rightarrow> 'b GradleLocalRepositoryParams \<times> string \<times> string option) \<Rightarrow>
      (unit \<Rightarrow> 'b GradleLocalRepositoryParams) \<Rightarrow> 'r) \<Rightarrow>
   ('s \<Rightarrow> (string \<times> Schema) list \<Rightarrow> 's) \<Rightarrow> 's \<Rightarrow> 'p \<Rightarrow> ('d, 'b) package_helpers \<Rightarrow> 'b \<Rightarrow> 'r" where
  "resourceArtifactoryLocalGradleRepository mkResourceSchema mergeSchema baseLocalRepoSchema
       universalPack h zero =
     mkResourceSchema (gradleLocalSchema mergeSchema baseLocalRepoSchema) universalPack
       (unPackLocalGradleRepository h) (newGradleLocalRepositoryParams zero)"

section \<open>Properties of Configure\<close>

subsection \<open>Diagnostics\<close>

lemma set_Append: "set (Append ds new) = set ds \<union> set new"
  by (induction new arbitrary: ds) auto

lemma HasError_iff: "HasError ds \<longleftrightarrow> (\<exists>d \<in> set ds. Severity d = SeverityError)"
  by (induction ds) auto

lemma HasError_Append: "HasError (Append ds new) \<longleftrightarrow> HasError ds \<or> HasError new"
  by (auto simp: HasError_iff set_Append)

lemma set_AddError: "set (AddError ds s d) = insert (NewErrorDiagnostic s d) (set ds)"
  by (auto simp: AddError_def set_Append)

lemma HasError_AddError: "HasError (AddError ds s d)"
  by (simp add: HasError_iff set_AddError NewErrorDiagnostic_def)

lemma NewErrorDiagnostic_eq:
  "NewErrorDiagnostic s d = NewErrorDiagnostic s' d' \<longleftrightarrow> s = s' \<and> d = d'"
  by (auto simp: NewErrorDiagnostic_def)

lemma no_error_not_mem: "\<not> HasError ds \<Longrightarrow> NewErrorDiagnostic s d \<notin> set ds"
  by (auto simp: HasError_iff NewErrorDiagnostic_def)

lemmas response_defs = new_response_def add_error_def record_call_def return_at_def

subsection \<open>Configure, one branch at a time\<close>

text \<open>
  Each lemma of this part takes the conditions under which \<open>Configure\<close>
  reaches one of its branches and gives what the function does from there.
\<close>

lemma Configure_config_error:
  assumes "HasError (fst (ConfigGet req))"
  shows "Configure env pid cl req =
           return_at 95 (new_response\<lparr>Diagnostics := Append [] (fst (ConfigGet req))\<rparr>)"
  using assms by (simp add: Configure_def Let_def HasError_Append response_defs)

lemma Configure_missing_url:
  assumes "\<not> HasError (fst (ConfigGet req))"
    and "ValueString (Url (snd (ConfigGet req))) = ''''"
    and "CheckEnvVars env [''JFROG_URL'', ''ARTIFACTORY_URL''] '''' = ''''"
  shows "Configure env pid cl req =
           return_at 109
             (add_error ''Missing URL Configuration''
                ''While configuring the provider, the url was not found in the JFROG_URL/ARTIFACTORY_URL environment variable or provider configuration block url attribute.''
                (new_response\<lparr>Diagnostics := Append [] (fst (ConfigGet req))\<rparr>))"
  using assms unfolding Configure_def Let_def by (simp add: HasError_Append response_defs)

lemma Configure_build_error:
  assumes "\<not> HasError (fst (ConfigGet req))"
    and "url = (if ValueString (Url (snd (ConfigGet req))) \<noteq> ''''
                then ValueString (Url (snd (ConfigGet req)))
                else CheckEnvVars env [''JFROG_URL'', ''ARTIFACTORY_URL''] '''')"
    and "url \<noteq> ''''"
    and "Build cl url pid = Inl err"
  shows "Configure env pid cl req =
           return_at 118
             (add_error ''Error creating Resty client'' err
                (record_call (CallBuild url pid)
                   (new_response\<lparr>Diagnostics := Append [] (fst (ConfigGet req))\<rparr>)))"
  using assms unfolding Configure_def Let_def by (simp add: HasError_Append response_defs)

lemma Configure_built:
  assumes "\<not> HasError (fst (ConfigGet req))"
    and "url = (if ValueString (Url (snd (ConfigGet req))) \<noteq> ''''
                then ValueString (Url (snd (ConfigGet req)))
                else CheckEnvVars env [''JFROG_URL'', ''ARTIFACTORY_URL''] '''')"
    and "url \<noteq> ''''"
    and "Build cl url pid = Inr c"
  shows "Configure env pid cl req =
           Configure_credentials pid cl req (snd (ConfigGet req))
             (CheckEnvVars env [''JFROG_ACCESS_TOKEN'', ''ARTIFACTORY_ACCESS_TOKEN''] '''') c
             (record_call (CallBuild url pid)
                (new_response\<lparr>Diagnostics := Append [] (fst (ConfigGet req))\<rparr>))"
  using assms unfolding Configure_def Let_def by (simp add: HasError_Append response_defs)

lemma credentials_oidc_error:
  assumes "OIDCTokenExchange cl c (ValueString (OIDCProviderName config)) = Inl err"
  shows "Configure_credentials pid cl req config envtok c resp0 =
           return_at 127
             (add_error ''Failed OIDC ID token exchange'' err
                (record_call (CallOIDCTokenExchange c (ValueString (OIDCProviderName config)))
                   resp0))"
  using assms unfolding Configure_credentials_def Let_def by simp

lemma credentials_missing:
  assumes "OIDCTokenExchange cl c (ValueString (OIDCProviderName config)) = Inr oidc"
    and "token = (if ValueString (AccessToken config) \<noteq> '''' then ValueString (AccessToken config)
                  else if oidc \<noteq> '''' then oidc else envtok)"
    and "ValueString (ApiKey config) = ''''" and "token = ''''"
  shows "Configure_credentials pid cl req config envtok c resp0 =
           return_at 150
             (add_error ''Missing JFrog API key or Access Token''
                ''While configuring the provider, the API key or Access Token was not found in the environment variables or provider configuration attributes.''
                (record_call (CallOIDCTokenExchange c (ValueString (OIDCProviderName config)))
                   resp0))"
  using assms unfolding Configure_credentials_def Let_def by (simp split: if_splits)

lemma credentials_authed:
  assumes "OIDCTokenExchange cl c (ValueString (OIDCProviderName config)) = Inr oidc"
    and "token = (if ValueString (AccessToken config) \<noteq> '''' then ValueString (AccessToken config)
                  else if oidc \<noteq> '''' then oidc else envtok)"
    and "ValueString (ApiKey config) \<noteq> '''' \<or> token \<noteq> ''''"
  shows "Configure_credentials pid cl req config envtok c resp0 =
           Configure_preflight pid cl req config
             (fst (AddAuth cl c (ValueString (ApiKey config)) token))
             ((case snd (AddAuth cl c (ValueString (ApiKey config)) token) of
                 Some err \<Rightarrow> add_error ''Error adding Auth to Resty client'' err
               | None \<Rightarrow> (\<lambda>r. r))
                (record_call (CallAddAuth c (ValueString (ApiKey config)) token)
                   (record_call
                      (CallOIDCTokenExchange c (ValueString (OIDCProviderName config)))
                      resp0)))"
  using assms unfolding Configure_credentials_def Let_def
  by (auto split: option.splits)

lemma preflight_license_error:
  assumes "IsNull (CheckLicense config) \<or> ValueBool (CheckLicense config)"
    and "CheckArtifactoryLicense cl c [''Enterprise'', ''Commercial'', ''Edge''] = Some err"
  shows "Configure_preflight pid cl req config c resp0 =
           return_at 167
             (add_error ''Error checking Artifactory license'' err
                (record_call
                   (CallCheckArtifactoryLicense c [''Enterprise'', ''Commercial'', ''Edge''])
                   resp0))"
  using assms unfolding Configure_preflight_def Let_def by auto

lemma preflight_version_error:
  assumes "IsNull (CheckLicense config) \<or> ValueBool (CheckLicense config) \<longrightarrow>
             CheckArtifactoryLicense cl c [''Enterprise'', ''Commercial'', ''Edge''] = None"
    and "GetArtifactoryVersion cl c = Inl err"
  shows "Configure_preflight pid cl req config c resp0 =
           return_at 177
             (add_error ''Error getting Artifactory version''
                (''The provider functionality might be affected by the absence of Artifactory version in the context. '' @ err)
                (record_call (CallGetArtifactoryVersion c)
                   (if IsNull (CheckLicense config) \<or> ValueBool (CheckLicense config)
                    then record_call
                           (CallCheckArtifactoryLicense c [''Enterprise'', ''Commercial'', ''Edge''])
                           resp0
                    else resp0)))"
  using assms unfolding Configure_preflight_def Let_def by auto

lemma preflight_released:
  assumes "IsNull (CheckLicense config) \<or> ValueBool (CheckLicense config) \<longrightarrow>
             CheckArtifactoryLicense cl c [''Enterprise'', ''Commercial'', ''Edge''] = None"
    and "GetArtifactoryVersion cl c = Inr version"
  shows "Configure_preflight pid cl req config c resp0 =
           (record_call (CallSendUsage c pid (''Terraform/'' @ TerraformVersion req))
              (record_call (CallGetArtifactoryVersion c)
                 (if IsNull (CheckLicense config) \<or> ValueBool (CheckLicense config)
                  then record_call
                         (CallCheckArtifactoryLicense c [''Enterprise'', ''Commercial'', ''Edge''])
                         resp0
                  else resp0)))
           \<lparr>DataSourceData := Some \<lparr>Client = c, ProductId = pid, ArtifactoryVersion = version\<rparr>,
             ResourceData := Some \<lparr>Client = c, ProductId = pid, ArtifactoryVersion = version\<rparr>\<rparr>"
  using assms unfolding Configure_preflight_def Let_def by auto

subsection \<open>Calls and outcome of the later parts\<close>

lemma report_fields:
  "calls ((case e of Some err \<Rightarrow> add_error s err | None \<Rightarrow> (\<lambda>r. r)) resp) = calls resp"
  "DataSourceData ((case e of Some err \<Rightarrow> add_error s err | None \<Rightarrow> (\<lambda>r. r)) resp) = DataSourceData resp"
  "ResourceData ((case e of Some err \<Rightarrow> add_error s err | None \<Rightarrow> (\<lambda>r. r)) resp) = ResourceData resp"
  "returned_at ((case e of Some err \<Rightarrow> add_error s err | None \<Rightarrow> (\<lambda>r. r)) resp) = returned_at resp"
  by (cases e; simp add: add_error_def)+

lemma report_Diagnostics:
  "Diagnostics ((case e of Some err \<Rightarrow> add_error s err | None \<Rightarrow> (\<lambda>r. r)) resp) =
     (case e of Some err \<Rightarrow> AddError (Diagnostics resp) s err | None \<Rightarrow> Diagnostics resp)"
  by (cases e; simp add: add_error_def)

lemma preflight_calls_prefix:
  "\<exists>rest. calls (Configure_preflight pid cl req config c resp0) = calls resp0 @ rest"
  by (simp add: Configure_preflight_def Let_def response_defs split: option.splits sum.splits)

lemma preflight_calls_frame:
  "CallBuild u p \<in> set (calls (Configure_preflight pid cl req config c resp0)) \<longleftrightarrow>
     CallBuild u p \<in> set (calls resp0)"
  "CallOIDCTokenExchange x n \<in> set (calls (Configure_preflight pid cl req config c resp0)) \<longleftrightarrow>
     CallOIDCTokenExchange x n \<in> set (calls resp0)"
  "CallAddAuth x k t \<in> set (calls (Configure_preflight pid cl req config c resp0)) \<longleftrightarrow>
     CallAddAuth x k t \<in> set (calls resp0)"
  by (simp_all add: Configure_preflight_def Let_def response_defs split: option.splits sum.splits)

lemma preflight_license_call:
  "CallCheckArtifactoryLicense x ts \<in> set (calls (Configure_preflight pid cl req config c resp0)) \<longleftrightarrow>
     CallCheckArtifactoryLicense x ts \<in> set (calls resp0) \<or>
     (IsNull (CheckLicense config) \<or> ValueBool (CheckLicense config)) \<and>
       x = c \<and> ts = [''Enterprise'', ''Commercial'', ''Edge'']"
  by (simp add: Configure_preflight_def Let_def response_defs split: option.splits sum.splits)
    blast

lemma preflight_outcome:
  assumes "DataSourceData resp0 = None" and "ResourceData resp0 = None"
    and "returned_at resp0 = None"
    and "r = Configure_preflight pid cl req config c resp0"
  shows "DataSourceData r = ResourceData r"
    and "ResourceData r = Some m \<Longrightarrow>
           Client m = c \<and> ProductId m = pid \<and>
           GetArtifactoryVersion cl c = Inr (ArtifactoryVersion m)"
    and "returned_at r = None \<longleftrightarrow> ResourceData r \<noteq> None"
    and "returned_at r \<noteq> None \<Longrightarrow> HasError (Diagnostics r)"
  using assms
  by (auto simp: Configure_preflight_def Let_def response_defs HasError_AddError
      split: option.splits sum.splits if_splits)

lemma credentials_outcome:
  assumes none: "DataSourceData resp0 = None" "ResourceData resp0 = None"
      "returned_at resp0 = None"
    and r: "r = Configure_credentials pid cl req config envtok c resp0"
  shows "DataSourceData r = ResourceData r"
    and "ResourceData r = Some m \<Longrightarrow>
           ProductId m = pid \<and>
           GetArtifactoryVersion cl (Client m) = Inr (ArtifactoryVersion m) \<and>
           (\<exists>k t. CallAddAuth c k t \<in> set (calls r) \<and> Client m = fst (AddAuth cl c k t))"
    and "returned_at r = None \<longleftrightarrow> ResourceData r \<noteq> None"
    and "returned_at r \<noteq> None \<Longrightarrow> HasError (Diagnostics r)"
proof -
  have "DataSourceData r = ResourceData r \<and>
    (ResourceData r = Some m \<longrightarrow>
           ProductId m = pid \<and>
           GetArtifactoryVersion cl (Client m) = Inr (ArtifactoryVersion m) \<and>
           (\<exists>k t. CallAddAuth c k t \<in> set (calls r) \<and> Client m = fst (AddAuth cl c k t))) \<and>
    (returned_at r = None \<longleftrightarrow> ResourceData r \<noteq> None) \<and>
    (returned_at r \<noteq> None \<longrightarrow> HasError (Diagnostics r))"
  proof (cases "OIDCTokenExchange cl c (ValueString (OIDCProviderName config))")
    case (Inl err)
    show ?thesis
      unfolding r using none
      by (simp add: credentials_oidc_error[OF Inl] response_defs HasError_AddError)
  next
    case (Inr oidc)
    define token where "token = (if ValueString (AccessToken config) \<noteq> ''''
        then ValueString (AccessToken config) else if oidc \<noteq> '''' then oidc else envtok)"
    show ?thesis
    proof (cases "ValueString (ApiKey config) = '''' \<and> token = ''''")
      case True
      show ?thesis
        unfolding r using none
        by (simp add: credentials_missing[OF Inr token_def conjunct1[OF True] conjunct2[OF True]]
            response_defs HasError_AddError)
    next
      case False
      then have ne: "ValueString (ApiKey config) \<noteq> '''' \<or> token \<noteq> ''''" by blast
      define k where "k = ValueString (ApiKey config)"
      define c' where "c' = fst (AddAuth cl c k token)"
      define resp where "resp = (case snd (AddAuth cl c k token) of
                   Some err \<Rightarrow> add_error ''Error adding Auth to Resty client'' err
                 | None \<Rightarrow> (\<lambda>r. r))
                  (record_call (CallAddAuth c k token)
                     (record_call
                        (CallOIDCTokenExchange c (ValueString (OIDCProviderName config)))
                        resp0))"
      have eq: "r = Configure_preflight pid cl req config c' resp"
        unfolding r c'_def resp_def k_def by (rule credentials_authed[OF Inr token_def ne])
      have pre: "DataSourceData resp = None" "ResourceData resp = None" "returned_at resp = None"
        using none by (simp_all add: resp_def report_fields record_call_def)
      have mem: "CallAddAuth c k token \<in> set (calls r)"
        unfolding eq preflight_calls_frame by (simp add: resp_def report_fields record_call_def)
      note out = preflight_outcome[OF pre eq]
      have "ResourceData r = Some m \<Longrightarrow>
           ProductId m = pid \<and>
           GetArtifactoryVersion cl (Client m) = Inr (ArtifactoryVersion m) \<and>
           (\<exists>k t. CallAddAuth c k t \<in> set (calls r) \<and> Client m = fst (AddAuth cl c k t))"
      proof -
        assume "ResourceData r = Some m"
        from out(2)[OF this] have m: "Client m = c'" "ProductId m = pid"
          "GetArtifactoryVersion cl c' = Inr (ArtifactoryVersion m)" by simp_all
        have "\<exists>k t. CallAddAuth c k t \<in> set (calls r) \<and> Client m = fst (AddAuth cl c k t)"
          using mem m(1) unfolding c'_def by blast
        with m show ?thesis by simp
      qed
      with out(1,3,4) show ?thesis by blast
    qed
  qed
  then show "DataSourceData r = ResourceData r"
    and "ResourceData r = Some m \<Longrightarrow>
           ProductId m = pid \<and>
           GetArtifactoryVersion cl (Client m) = Inr (ArtifactoryVersion m) \<and>
           (\<exists>k t. CallAddAuth c k t \<in> set (calls r) \<and> Client m = fst (AddAuth cl c k t))"
    and "returned_at r = None \<longleftrightarrow> ResourceData r \<noteq> None"
    and "returned_at r \<noteq> None \<Longrightarrow> HasError (Diagnostics r)"
    by blast+
qed

subsection \<open>Example runs\<close>

lemmas eval_defs = Configure_def Configure_credentials_def Configure_preflight_def
  example_server_def example_config_def example_request_def AddAuth_model_def
  new_response_def add_error_def record_call_def return_at_def
  Getenv_def AddError_def NewErrorDiagnostic_def Let_def

lemma run_api_key_only:
  "Configure Map.empty ''terraform-provider-artifactory/11.0.0''
     (example_server (Inl ''no identity token'') None (Inr ''7.90.1''))
     (example_request example_config) =
   \<lparr>Diagnostics = [],
    DataSourceData = Some \<lparr>Client = \<lparr>BaseURL = ''https://x.example/artifactory'',
        UserAgent = ''terraform-provider-artifactory/11.0.0'',
        Credential = Some (ApiKeyHeader ''k1'')\<rparr>,
      ProductId = ''terraform-provider-artifactory/11.0.0'', ArtifactoryVersion = ''7.90.1''\<rparr>,
    ResourceData = Some \<lparr>Client = \<lparr>BaseURL = ''https://x.example/artifactory'',
        UserAgent = ''terraform-provider-artifactory/11.0.0'',
        Credential = Some (ApiKeyHeader ''k1'')\<rparr>,
      ProductId = ''terraform-provider-artifactory/11.0.0'', ArtifactoryVersion = ''7.90.1''\<rparr>,
    calls = [CallBuild ''https://x.example/artifactory'' ''terraform-provider-artifactory/11.0.0'',
      CallOIDCTokenExchange \<lparr>BaseURL = ''https://x.example/artifactory'',
        UserAgent = ''terraform-provider-artifactory/11.0.0'', Credential = None\<rparr> '''',
      CallAddAuth \<lparr>BaseURL = ''https://x.example/artifactory'',
        UserAgent = ''terraform-provider-artifactory/11.0.0'', Credential = None\<rparr> ''k1'' '''',
      CallCheckArtifactoryLicense \<lparr>BaseURL = ''https://x.example/artifactory'',
        UserAgent = ''terraform-provider-artifactory/11.0.0'',
        Credential = Some (ApiKeyHeader ''k1'')\<rparr> [''Enterprise'', ''Commercial'', ''Edge''],
      CallGetArtifactoryVersion \<lparr>BaseURL = ''https://x.example/artifactory'',
        UserAgent = ''terraform-provider-artifactory/11.0.0'',
        Credential = Some (ApiKeyHeader ''k1'')\<rparr>,
      CallSendUsage \<lparr>BaseURL = ''https://x.example/artifactory'',
        UserAgent = ''terraform-provider-artifactory/11.0.0'',
        Credential = Some (ApiKeyHeader ''k1'')\<rparr> ''terraform-provider-artifactory/11.0.0''
        ''Terraform/1.5.7''],
    returned_at = None\<rparr>"
  by (simp add: eval_defs)

lemma run_no_url:
  "Configure Map.empty ''terraform-provider-artifactory/11.0.0''
     (example_server (Inl ''no identity token'') None (Inr ''7.90.1''))
     (example_request (example_config\<lparr>Url := StringNull\<rparr>)) =
   \<lparr>Diagnostics = [NewErrorDiagnostic ''Missing URL Configuration''
       ''While configuring the provider, the url was not found in the JFROG_URL/ARTIFACTORY_URL environment variable or provider configuration block url attribute.''],
    DataSourceData = None, ResourceData = None, calls = [], returned_at = Some 109\<rparr>"
  by (simp add: eval_defs)


subsection \<open>Release of the metadata\<close>

lemma Configure_outcome:
  fixes cl :: "'c collaborators"
  assumes r: "r = Configure env pid cl req"
  shows "DataSourceData r = ResourceData r \<and>
   (\<forall>m. ResourceData r = Some m \<longrightarrow>
      ProductId m = pid \<and>
      GetArtifactoryVersion cl (Client m) = Inr (ArtifactoryVersion m) \<and>
      (\<exists>c k t. CallAddAuth c k t \<in> set (calls r) \<and> Client m = fst (AddAuth cl c k t))) \<and>
   (returned_at r = None \<longleftrightarrow> ResourceData r \<noteq> None) \<and>
   (returned_at r \<noteq> None \<longrightarrow> HasError (Diagnostics r))"
proof (cases "HasError (fst (ConfigGet req))")
  case True
  show ?thesis
    unfolding r using True
    by (simp add: Configure_config_error[OF True] response_defs HasError_Append)
next
  case noerr: False
  define url where "url = (if ValueString (Url (snd (ConfigGet req))) \<noteq> ''''
                then ValueString (Url (snd (ConfigGet req)))
                else CheckEnvVars env [''JFROG_URL'', ''ARTIFACTORY_URL''] '''')"
  show ?thesis
  proof (cases "url = ''''")
    case True
    then have u: "ValueString (Url (snd (ConfigGet req))) = ''''"
      "CheckEnvVars env [''JFROG_URL'', ''ARTIFACTORY_URL''] '''' = ''''"
      unfolding url_def by (simp_all split: if_splits)
    show ?thesis
      unfolding r
      by (simp add: Configure_missing_url[OF noerr u] response_defs HasError_AddError)
  next
    case ne: False
    show ?thesis
    proof (cases "Build cl url pid")
      case (Inl err)
      show ?thesis
        unfolding r
        by (simp add: Configure_build_error[OF noerr url_def ne Inl] response_defs
            HasError_AddError)
    next
      case (Inr c)
      define resp :: "'c ConfigureResponse" where "resp = record_call (CallBuild url pid)
                (new_response\<lparr>Diagnostics := Append [] (fst (ConfigGet req))\<rparr>)"
      have pre: "DataSourceData resp = None" "ResourceData resp = None"
        "returned_at resp = None"
        by (simp_all add: resp_def response_defs)
      have eq: "r = Configure_credentials pid cl req (snd (ConfigGet req))
             (CheckEnvVars env [''JFROG_ACCESS_TOKEN'', ''ARTIFACTORY_ACCESS_TOKEN''] '''') c resp"
        unfolding r resp_def by (rule Configure_built[OF noerr url_def ne Inr])
      note out = credentials_outcome[OF pre eq]
      from out(1) out(2) out(3) out(4) show ?thesis by blast
    qed
  qed
qed

text \<open>
  What holds of the metadata on every run: \<open>DataSourceData\<close> and
  \<open>ResourceData\<close> are always equal; when they are set, \<open>Configure\<close> ran to its
  end, and the value holds the handle that \<open>client.AddAuth\<close> returned, the
  product id and the version returned by \<open>GetArtifactoryVersion\<close> for that
  handle; when \<open>Configure\<close> left through a \<open>return\<close> statement, an error
  diagnostic is present and both fields are unset. Whether \<open>client.AddAuth\<close>
  returned an error is not part of this statement.
\<close>

lemma Configure_metadata_release:
  "DataSourceData (Configure env pid cl req) = ResourceData (Configure env pid cl req) \<and>
   (\<forall>m. ResourceData (Configure env pid cl req) = Some m \<longrightarrow>
      ProductId m = pid \<and>
      GetArtifactoryVersion cl (Client m) = Inr (ArtifactoryVersion m) \<and>
      (\<exists>c k t. CallAddAuth c k t \<in> set (calls (Configure env pid cl req)) \<and>
                Client m = fst (AddAuth cl c k t))) \<and>
   (returned_at (Configure env pid cl req) = None \<longleftrightarrow>
      ResourceData (Configure env pid cl req) \<noteq> None) \<and>
   (returned_at (Configure env pid cl req) \<noteq> None \<longrightarrow>
      HasError (Diagnostics (Configure env pid cl req)) \<and>
      DataSourceData (Configure env pid cl req) = None \<and>
      ResourceData (Configure env pid cl req) = None)"
proof -
  define r where "r = Configure env pid cl req"
  from Configure_outcome[OF r_def]
  have "DataSourceData r = ResourceData r \<and>
   (\<forall>m. ResourceData r = Some m \<longrightarrow>
      ProductId m = pid \<and>
      GetArtifactoryVersion cl (Client m) = Inr (ArtifactoryVersion m) \<and>
      (\<exists>c k t. CallAddAuth c k t \<in> set (calls r) \<and> Client m = fst (AddAuth cl c k t))) \<and>
   (returned_at r = None \<longleftrightarrow> ResourceData r \<noteq> None) \<and>
   (returned_at r \<noteq> None \<longrightarrow>
      HasError (Diagnostics r) \<and> DataSourceData r = None \<and> ResourceData r = None)"
    by auto
  then show ?thesis unfolding r_def .
qed

lemma Configure_metadata_release_example:
  "ResourceData (Configure Map.empty ''terraform-provider-artifactory/11.0.0''
     (example_server (Inl ''no identity token'') None (Inr ''7.90.1''))
     (example_request example_config)) \<noteq> None \<and>
   GetArtifactoryVersion (example_server (Inl ''no identity token'') None (Inr ''7.90.1''))
     \<lparr>BaseURL = ''https://x.example/artifactory'',
        UserAgent = ''terraform-provider-artifactory/11.0.0'',
        Credential = Some (ApiKeyHeader ''k1'')\<rparr> = Inr ''7.90.1'' \<and>
   returned_at (Configure Map.empty ''terraform-provider-artifactory/11.0.0''
     (example_server (Inl ''no identity token'') None (Inr ''7.90.1''))
     (example_request (example_config\<lparr>Url := StringNull\<rparr>))) \<noteq> None \<and>
   ResourceData (Configure Map.empty ''terraform-provider-artifactory/11.0.0''
     (example_server (Inl ''no identity token'') None (Inr ''7.90.1''))
     (example_request (example_config\<lparr>Url := StringNull\<rparr>))) = None"
  using Configure_metadata_release[of Map.empty "''terraform-provider-artifactory/11.0.0''"
      "example_server (Inl ''no identity token'') None (Inr ''7.90.1'')"
      "example_request example_config"]
    Configure_metadata_release[of Map.empty "''terraform-provider-artifactory/11.0.0''"
      "example_server (Inl ''no identity token'') None (Inr ''7.90.1'')"
      "example_request (example_config\<lparr>Url := StringNull\<rparr>)"]
  unfolding run_api_key_only run_no_url
  by (simp add: example_server_def)


subsection \<open>More on the calls and diagnostics of each part\<close>

lemma preflight_calls_rest:
  "\<exists>rest. calls (Configure_preflight pid cl req config c resp0) = calls resp0 @ rest \<and>
     (\<forall>u p. CallBuild u p \<notin> set rest) \<and>
     (\<forall>x n. CallOIDCTokenExchange x n \<notin> set rest) \<and>
     (\<forall>x k t. CallAddAuth x k t \<notin> set rest)"
  by (simp add: Configure_preflight_def Let_def response_defs split: option.splits sum.splits)

lemma preflight_Diagnostics:
  assumes "d \<in> set (Diagnostics (Configure_preflight pid cl req config c resp0))"
  shows "d \<in> set (Diagnostics resp0) \<or> Summary d = ''Error checking Artifactory license'' \<or>
         Summary d = ''Error getting Artifactory version''"
  using assms
  by (auto simp: Configure_preflight_def Let_def response_defs set_AddError
      NewErrorDiagnostic_def split: option.splits sum.splits if_splits)

lemma preflight_returned_at:
  assumes "returned_at resp0 = None"
  shows "returned_at (Configure_preflight pid cl req config c resp0) \<in> {None, Some 167, Some 177}"
  using assms
  by (simp add: Configure_preflight_def Let_def response_defs split: option.splits sum.splits)

lemma Configure_authed:
  fixes cl :: "'c collaborators"
  assumes noerr: "\<not> HasError (fst (ConfigGet req))"
    and url: "url = (if ValueString (Url (snd (ConfigGet req))) \<noteq> ''''
                then ValueString (Url (snd (ConfigGet req)))
                else CheckEnvVars env [''JFROG_URL'', ''ARTIFACTORY_URL''] '''')"
    and ne: "url \<noteq> ''''"
    and build: "Build cl url pid = Inr c"
    and oidc: "OIDCTokenExchange cl c (ValueString (OIDCProviderName (snd (ConfigGet req)))) = Inr oidc"
    and token: "token = (if ValueString (AccessToken (snd (ConfigGet req))) \<noteq> ''''
                  then ValueString (AccessToken (snd (ConfigGet req)))
                  else if oidc \<noteq> '''' then oidc
                  else CheckEnvVars env [''JFROG_ACCESS_TOKEN'', ''ARTIFACTORY_ACCESS_TOKEN''] '''')"
    and cred: "ValueString (ApiKey (snd (ConfigGet req))) \<noteq> '''' \<or> token \<noteq> ''''"
  shows "Configure env pid cl req =
           Configure_preflight pid cl req (snd (ConfigGet req))
             (fst (AddAuth cl c (ValueString (ApiKey (snd (ConfigGet req)))) token))
             ((case snd (AddAuth cl c (ValueString (ApiKey (snd (ConfigGet req)))) token) of
                 Some err \<Rightarrow> add_error ''Error adding Auth to Resty client'' err
               | None \<Rightarrow> (\<lambda>r. r))
                (record_call (CallAddAuth c (ValueString (ApiKey (snd (ConfigGet req)))) token)
                   (record_call
                      (CallOIDCTokenExchange c
                         (ValueString (OIDCProviderName (snd (ConfigGet req)))))
                      (record_call (CallBuild url pid)
                         (new_response\<lparr>Diagnostics := Append [] (fst (ConfigGet req))\<rparr>)))))"
  unfolding Configure_built[OF noerr url ne build]
  by (rule credentials_authed[OF oidc token cred])

lemma Configure_oidc_error:
  fixes cl :: "'c collaborators"
  assumes noerr: "\<not> HasError (fst (ConfigGet req))"
    and url: "url = (if ValueString (Url (snd (ConfigGet req))) \<noteq> ''''
                then ValueString (Url (snd (ConfigGet req)))
                else CheckEnvVars env [''JFROG_URL'', ''ARTIFACTORY_URL''] '''')"
    and ne: "url \<noteq> ''''"
    and build: "Build cl url pid = Inr c"
    and oidc: "OIDCTokenExchange cl c (ValueString (OIDCProviderName (snd (ConfigGet req)))) = Inl err"
  shows "Configure env pid cl req =
           return_at 127
             (add_error ''Failed OIDC ID token exchange'' err
                (record_call
                   (CallOIDCTokenExchange c (ValueString (OIDCProviderName (snd (ConfigGet req)))))
                   (record_call (CallBuild url pid)
                      (new_response\<lparr>Diagnostics := Append [] (fst (ConfigGet req))\<rparr>))))"
  unfolding Configure_built[OF noerr url ne build]
  by (rule credentials_oidc_error[OF oidc])

lemma Configure_missing_credentials:
  fixes cl :: "'c collaborators"
  assumes noerr: "\<not> HasError (fst (ConfigGet req))"
    and url: "url = (if ValueString (Url (snd (ConfigGet req))) \<noteq> ''''
                then ValueString (Url (snd (ConfigGet req)))
                else CheckEnvVars env [''JFROG_URL'', ''ARTIFACTORY_URL''] '''')"
    and ne: "url \<noteq> ''''"
    and build: "Build cl url pid = Inr c"
    and oidc: "OIDCTokenExchange cl c (ValueString (OIDCProviderName (snd (ConfigGet req)))) = Inr oidc"
    and token: "token = (if ValueString (AccessToken (snd (ConfigGet req))) \<noteq> ''''
                  then ValueString (AccessToken (snd (ConfigGet req)))
                  else if oidc \<noteq> '''' then oidc
                  else CheckEnvVars env [''JFROG_ACCESS_TOKEN'', ''ARTIFACTORY_ACCESS_TOKEN''] '''')"
    and nokey: "ValueString (ApiKey (snd (ConfigGet req))) = ''''" and notok: "token = ''''"
  shows "Configure env pid cl req =
           return_at 150
             (add_error ''Missing JFrog API key or Access Token''
                ''While configuring the provider, the API key or Access Token was not found in the environment variables or provider configuration attributes.''
                (record_call
                   (CallOIDCTokenExchange c (ValueString (OIDCProviderName (snd (ConfigGet req)))))
                   (record_call (CallBuild url pid)
                      (new_response\<lparr>Diagnostics := Append [] (fst (ConfigGet req))\<rparr>))))"
  unfolding Configure_built[OF noerr url ne build]
  by (rule credentials_missing[OF oidc token nokey notok])

lemma credentials_calls_rest:
  "\<exists>rest. calls (Configure_credentials pid cl req config envtok c resp0) =
       calls resp0 @ CallOIDCTokenExchange c (ValueString (OIDCProviderName config)) # rest \<and>
     (\<forall>u p. CallBuild u p \<notin> set rest) \<and>
     (\<forall>x n. CallOIDCTokenExchange x n \<notin> set rest)"
proof (cases "OIDCTokenExchange cl c (ValueString (OIDCProviderName config))")
  case (Inl err)
  show ?thesis by (simp add: credentials_oidc_error[OF Inl] response_defs)
next
  case (Inr oidc)
  define token where "token = (if ValueString (AccessToken config) \<noteq> ''''
      then ValueString (AccessToken config) else if oidc \<noteq> '''' then oidc else envtok)"
  show ?thesis
  proof (cases "ValueString (ApiKey config) = '''' \<and> token = ''''")
    case True
    show ?thesis
      by (simp add: credentials_missing[OF Inr token_def conjunct1[OF True] conjunct2[OF True]]
          response_defs)
  next
    case False
    then have ne: "ValueString (ApiKey config) \<noteq> '''' \<or> token \<noteq> ''''" by blast
    define k where "k = ValueString (ApiKey config)"
    define n where "n = ValueString (OIDCProviderName config)"
    define c' where "c' = fst (AddAuth cl c k token)"
    define resp where "resp = (case snd (AddAuth cl c k token) of
                 Some err \<Rightarrow> add_error ''Error adding Auth to Resty client'' err
               | None \<Rightarrow> (\<lambda>r. r))
                (record_call (CallAddAuth c k token)
                   (record_call (CallOIDCTokenExchange c n) resp0))"
    have eq: "Configure_credentials pid cl req config envtok c resp0 =
        Configure_preflight pid cl req config c' resp"
      unfolding c'_def resp_def k_def n_def by (rule credentials_authed[OF Inr token_def ne])
    have cr: "calls resp = calls resp0 @ [CallOIDCTokenExchange c n, CallAddAuth c k token]"
      by (simp add: resp_def report_fields record_call_def)
    obtain rest where rest: "calls (Configure_preflight pid cl req config c' resp) = calls resp @ rest"
      "\<forall>u p. CallBuild u p \<notin> set rest" "\<forall>x n. CallOIDCTokenExchange x n \<notin> set rest"
      using preflight_calls_rest[of pid cl req config c' resp] by blast
    have "calls (Configure_credentials pid cl req config envtok c resp0) =
       calls resp0 @ CallOIDCTokenExchange c n # (CallAddAuth c k token # rest)"
      unfolding eq rest(1) cr by simp
    moreover have "\<forall>u p. CallBuild u p \<notin> set (CallAddAuth c k token # rest)"
      using rest(2) by simp
    moreover have "\<forall>x n. CallOIDCTokenExchange x n \<notin> set (CallAddAuth c k token # rest)"
      using rest(3) by simp
    ultimately show ?thesis unfolding n_def by blast
  qed
qed

subsection \<open>The URL\<close>

text \<open>
  C6: when the provider block decodes without error, the URL that
  \<open>Configure\<close> uses is the \<open>url\<close> attribute when that is non-empty, otherwise
  \<open>JFROG_URL\<close> when that is non-empty, otherwise \<open>ARTIFACTORY_URL\<close>. A
  non-empty URL is the argument of the one call of \<open>client.Build\<close>, which is
  the first call made. An empty URL ends \<open>Configure\<close> at line 109 with the
  error "Missing URL Configuration", no collaborator called and no metadata
  released.
\<close>

theorem Configure_url_precedence:
  fixes cl :: "'c collaborators"
  assumes noerr: "\<not> HasError (fst (ConfigGet req))"
    and url: "url = (if ValueString (Url (snd (ConfigGet req))) \<noteq> ''''
                     then ValueString (Url (snd (ConfigGet req)))
                     else if Getenv env ''JFROG_URL'' \<noteq> '''' then Getenv env ''JFROG_URL''
                     else Getenv env ''ARTIFACTORY_URL'')"
  shows "(url \<noteq> '''' \<longrightarrow>
            (\<exists>rest. calls (Configure env pid cl req) = CallBuild url pid # rest \<and>
                    (\<forall>u p. CallBuild u p \<notin> set rest))) \<and>
         (url = '''' \<longrightarrow>
            calls (Configure env pid cl req) = [] \<and>
            returned_at (Configure env pid cl req) = Some 109 \<and>
            NewErrorDiagnostic ''Missing URL Configuration''
              ''While configuring the provider, the url was not found in the JFROG_URL/ARTIFACTORY_URL environment variable or provider configuration block url attribute.''
              \<in> set (Diagnostics (Configure env pid cl req)) \<and>
            HasError (Diagnostics (Configure env pid cl req)) \<and>
            DataSourceData (Configure env pid cl req) = None \<and>
            ResourceData (Configure env pid cl req) = None)"
proof (intro conjI impI)
  have url': "url = (if ValueString (Url (snd (ConfigGet req))) \<noteq> ''''
                then ValueString (Url (snd (ConfigGet req)))
                else CheckEnvVars env [''JFROG_URL'', ''ARTIFACTORY_URL''] '''')"
    unfolding url by simp
  {
    assume ne: "url \<noteq> ''''"
    show "\<exists>rest. calls (Configure env pid cl req) = CallBuild url pid # rest \<and>
                    (\<forall>u p. CallBuild u p \<notin> set rest)"
    proof (cases "Build cl url pid")
      case (Inl err)
      show ?thesis
        by (simp add: Configure_build_error[OF noerr url' ne Inl] response_defs)
    next
      case (Inr c)
      define resp :: "'c ConfigureResponse" where "resp = record_call (CallBuild url pid)
                (new_response\<lparr>Diagnostics := Append [] (fst (ConfigGet req))\<rparr>)"
      have cr: "calls resp = [CallBuild url pid]" by (simp add: resp_def response_defs)
      have eq: "Configure env pid cl req = Configure_credentials pid cl req (snd (ConfigGet req))
             (CheckEnvVars env [''JFROG_ACCESS_TOKEN'', ''ARTIFACTORY_ACCESS_TOKEN''] '''') c resp"
        unfolding resp_def by (rule Configure_built[OF noerr url' ne Inr])
      obtain rest where rest: "calls (Configure env pid cl req) = calls resp @
          CallOIDCTokenExchange c (ValueString (OIDCProviderName (snd (ConfigGet req)))) # rest"
        "\<forall>u p. CallBuild u p \<notin> set rest"
        unfolding eq
        using credentials_calls_rest[of pid cl req "snd (ConfigGet req)"
            "CheckEnvVars env [''JFROG_ACCESS_TOKEN'', ''ARTIFACTORY_ACCESS_TOKEN''] ''''" c resp]
        by (elim exE conjE) simp
      have "calls (Configure env pid cl req) = CallBuild url pid #
          (CallOIDCTokenExchange c (ValueString (OIDCProviderName (snd (ConfigGet req)))) # rest)"
        unfolding rest(1) cr by simp
      moreover have "\<forall>u p. CallBuild u p \<notin> set
          (CallOIDCTokenExchange c (ValueString (OIDCProviderName (snd (ConfigGet req)))) # rest)"
        using rest(2) by simp
      ultimately show ?thesis by blast
    qed
  }
  assume "url = ''''"
  then have u: "ValueString (Url (snd (ConfigGet req))) = ''''"
    "CheckEnvVars env [''JFROG_URL'', ''ARTIFACTORY_URL''] '''' = ''''"
    unfolding url' by (simp_all split: if_splits)
  note eq = Configure_missing_url[OF noerr u, of pid cl]
  show "calls (Configure env pid cl req) = []"
    and "returned_at (Configure env pid cl req) = Some 109"
    and "NewErrorDiagnostic ''Missing URL Configuration''
              ''While configuring the provider, the url was not found in the JFROG_URL/ARTIFACTORY_URL environment variable or provider configuration block url attribute.''
              \<in> set (Diagnostics (Configure env pid cl req))"
    and "HasError (Diagnostics (Configure env pid cl req))"
    and "DataSourceData (Configure env pid cl req) = None"
    and "ResourceData (Configure env pid cl req) = None"
    unfolding eq by (simp_all add: response_defs set_AddError HasError_AddError)
qed

lemma run_env_url:
  "Configure [''ARTIFACTORY_URL'' \<mapsto> ''https://env.example/artifactory'']
     ''terraform-provider-artifactory/11.0.0''
     (example_server (Inl ''no identity token'') None (Inl ''connection refused''))
     (example_request (example_config\<lparr>Url := StringNull\<rparr>)) =
   \<lparr>Diagnostics = [NewErrorDiagnostic ''Error getting Artifactory version''
       ''The provider functionality might be affected by the absence of Artifactory version in the context. connection refused''],
    DataSourceData = None, ResourceData = None,
    calls = [CallBuild ''https://env.example/artifactory'' ''terraform-provider-artifactory/11.0.0'',
      CallOIDCTokenExchange \<lparr>BaseURL = ''https://env.example/artifactory'',
        UserAgent = ''terraform-provider-artifactory/11.0.0'', Credential = None\<rparr> '''',
      CallAddAuth \<lparr>BaseURL = ''https://env.example/artifactory'',
        UserAgent = ''terraform-provider-artifactory/11.0.0'', Credential = None\<rparr> ''k1'' '''',
      CallCheckArtifactoryLicense \<lparr>BaseURL = ''https://env.example/artifactory'',
        UserAgent = ''terraform-provider-artifactory/11.0.0'',
        Credential = Some (ApiKeyHeader ''k1'')\<rparr> [''Enterprise'', ''Commercial'', ''Edge''],
      CallGetArtifactoryVersion \<lparr>BaseURL = ''https://env.example/artifactory'',
        UserAgent = ''terraform-provider-artifactory/11.0.0'',
        Credential = Some (ApiKeyHeader ''k1'')\<rparr>],
    returned_at = Some 177\<rparr>"
  by (simp add: eval_defs)

theorem Configure_url_precedence_witness:
  "hd (calls (Configure [''ARTIFACTORY_URL'' \<mapsto> ''https://env.example/artifactory'']
     ''terraform-provider-artifactory/11.0.0''
     (example_server (Inl ''no identity token'') None (Inl ''connection refused''))
     (example_request (example_config\<lparr>Url := StringNull\<rparr>)))) =
     CallBuild ''https://env.example/artifactory'' ''terraform-provider-artifactory/11.0.0'' \<and>
   returned_at (Configure Map.empty ''terraform-provider-artifactory/11.0.0''
     (example_server (Inl ''no identity token'') None (Inr ''7.90.1''))
     (example_request (example_config\<lparr>Url := StringNull\<rparr>))) = Some 109"
  using Configure_url_precedence[of "example_request (example_config\<lparr>Url := StringNull\<rparr>)"
      "''https://env.example/artifactory''"
      "[''ARTIFACTORY_URL'' \<mapsto> ''https://env.example/artifactory'']"
      "''terraform-provider-artifactory/11.0.0''"
      "example_server (Inl ''no identity token'') None (Inl ''connection refused'')"]
    Configure_url_precedence[of "example_request (example_config\<lparr>Url := StringNull\<rparr>)"
      "''''" Map.empty "''terraform-provider-artifactory/11.0.0''"
      "example_server (Inl ''no identity token'') None (Inr ''7.90.1'')"]
  unfolding run_env_url run_no_url
  by (simp add: example_request_def example_config_def Getenv_def)

lemma license_enabled_iff:
  "IsNull b \<or> ValueBool b \<longleftrightarrow> b = BoolNull \<or> b = BoolValue True"
  by (cases b) auto

lemma Configure_reaches_preflight:
  fixes cl :: "'c collaborators"
  assumes noerr: "\<not> HasError (fst (ConfigGet req))"
    and url: "url = (if ValueString (Url (snd (ConfigGet req))) \<noteq> ''''
                then ValueString (Url (snd (ConfigGet req)))
                else CheckEnvVars env [''JFROG_URL'', ''ARTIFACTORY_URL''] '''')"
    and ne: "url \<noteq> ''''"
    and build: "Build cl url pid = Inr c"
    and oidc: "OIDCTokenExchange cl c (ValueString (OIDCProviderName (snd (ConfigGet req)))) = Inr oidc"
    and token: "token = (if ValueString (AccessToken (snd (ConfigGet req))) \<noteq> ''''
                  then ValueString (AccessToken (snd (ConfigGet req)))
                  else if oidc \<noteq> '''' then oidc
                  else CheckEnvVars env [''JFROG_ACCESS_TOKEN'', ''ARTIFACTORY_ACCESS_TOKEN''] '''')"
    and cred: "ValueString (ApiKey (snd (ConfigGet req))) \<noteq> '''' \<or> token \<noteq> ''''"
  obtains resp where
    "Configure env pid cl req =
       Configure_preflight pid cl req (snd (ConfigGet req))
         (fst (AddAuth cl c (ValueString (ApiKey (snd (ConfigGet req)))) token)) resp"
    and "calls resp = [CallBuild url pid,
           CallOIDCTokenExchange c (ValueString (OIDCProviderName (snd (ConfigGet req)))),
           CallAddAuth c (ValueString (ApiKey (snd (ConfigGet req)))) token]"
    and "DataSourceData resp = None" and "ResourceData resp = None"
    and "returned_at resp = None"
    and "Diagnostics resp =
           (case snd (AddAuth cl c (ValueString (ApiKey (snd (ConfigGet req)))) token) of
              Some err \<Rightarrow> AddError (Append [] (fst (ConfigGet req)))
                            ''Error adding Auth to Resty client'' err
            | None \<Rightarrow> Append [] (fst (ConfigGet req)))"
proof -
  define resp :: "'c ConfigureResponse" where "resp =
    (case snd (AddAuth cl c (ValueString (ApiKey (snd (ConfigGet req)))) token) of
                 Some err \<Rightarrow> add_error ''Error adding Auth to Resty client'' err
               | None \<Rightarrow> (\<lambda>r. r))
                (record_call (CallAddAuth c (ValueString (ApiKey (snd (ConfigGet req)))) token)
                   (record_call
                      (CallOIDCTokenExchange c
                         (ValueString (OIDCProviderName (snd (ConfigGet req)))))
                      (record_call (CallBuild url pid)
                         (new_response\<lparr>Diagnostics := Append [] (fst (ConfigGet req))\<rparr>))))"
  have "Configure env pid cl req =
       Configure_preflight pid cl req (snd (ConfigGet req))
         (fst (AddAuth cl c (ValueString (ApiKey (snd (ConfigGet req)))) token)) resp"
    unfolding resp_def by (rule Configure_authed[OF noerr url ne build oidc token cred])
  moreover have "calls resp = [CallBuild url pid,
           CallOIDCTokenExchange c (ValueString (OIDCProviderName (snd (ConfigGet req)))),
           CallAddAuth c (ValueString (ApiKey (snd (ConfigGet req)))) token]"
    "DataSourceData resp = None" "ResourceData resp = None" "returned_at resp = None"
    by (simp_all add: resp_def report_fields response_defs)
  moreover have "Diagnostics resp =
           (case snd (AddAuth cl c (ValueString (ApiKey (snd (ConfigGet req)))) token) of
              Some err \<Rightarrow> AddError (Append [] (fst (ConfigGet req)))
                            ''Error adding Auth to Resty client'' err
            | None \<Rightarrow> Append [] (fst (ConfigGet req)))"
    by (simp add: resp_def report_Diagnostics response_defs split: option.splits)
  ultimately show thesis by (rule that)
qed

subsection \<open>Presence of a credential\<close>

text \<open>
  C7: once the client is built and the OIDC exchange has returned, the access
  token is the \<open>access_token\<close> attribute, else the exchanged token, else the
  token of the environment. When it and the \<open>api_key\<close> attribute are both
  empty, \<open>Configure\<close> ends at line 150 with the error "Missing JFrog API key
  or Access Token" and \<open>client.AddAuth\<close> is not called. When one of them is
  non-empty that error is not raised and \<open>client.AddAuth\<close> is the next call.
\<close>

theorem Configure_credential_check:
  fixes cl :: "'c collaborators"
  assumes noerr: "\<not> HasError (fst (ConfigGet req))"
    and url: "url = (if ValueString (Url (snd (ConfigGet req))) \<noteq> ''''
                then ValueString (Url (snd (ConfigGet req)))
                else CheckEnvVars env [''JFROG_URL'', ''ARTIFACTORY_URL''] '''')"
    and ne: "url \<noteq> ''''"
    and build: "Build cl url pid = Inr c"
    and oidc: "OIDCTokenExchange cl c (ValueString (OIDCProviderName (snd (ConfigGet req)))) = Inr oidc"
    and token: "token = (if ValueString (AccessToken (snd (ConfigGet req))) \<noteq> ''''
                  then ValueString (AccessToken (snd (ConfigGet req)))
                  else if oidc \<noteq> '''' then oidc
                  else CheckEnvVars env [''JFROG_ACCESS_TOKEN'', ''ARTIFACTORY_ACCESS_TOKEN''] '''')"
  shows "(ValueString (ApiKey (snd (ConfigGet req))) = '''' \<and> token = '''' \<longrightarrow>
            returned_at (Configure env pid cl req) = Some 150 \<and>
            NewErrorDiagnostic ''Missing JFrog API key or Access Token''
              ''While configuring the provider, the API key or Access Token was not found in the environment variables or provider configuration attributes.''
              \<in> set (Diagnostics (Configure env pid cl req)) \<and>
            HasError (Diagnostics (Configure env pid cl req)) \<and>
            calls (Configure env pid cl req) =
              [CallBuild url pid,
               CallOIDCTokenExchange c (ValueString (OIDCProviderName (snd (ConfigGet req))))] \<and>
            DataSourceData (Configure env pid cl req) = None \<and>
            ResourceData (Configure env pid cl req) = None) \<and>
         (ValueString (ApiKey (snd (ConfigGet req))) \<noteq> '''' \<or> token \<noteq> '''' \<longrightarrow>
            returned_at (Configure env pid cl req) \<noteq> Some 150 \<and>
            NewErrorDiagnostic ''Missing JFrog API key or Access Token''
              ''While configuring the provider, the API key or Access Token was not found in the environment variables or provider configuration attributes.''
              \<notin> set (Diagnostics (Configure env pid cl req)) \<and>
            (\<exists>rest. calls (Configure env pid cl req) =
               [CallBuild url pid,
                CallOIDCTokenExchange c (ValueString (OIDCProviderName (snd (ConfigGet req)))),
                CallAddAuth c (ValueString (ApiKey (snd (ConfigGet req)))) token] @ rest))"
proof (intro conjI impI)
  {
    assume both: "ValueString (ApiKey (snd (ConfigGet req))) = '''' \<and> token = ''''"
    note eq = Configure_missing_credentials[OF noerr url ne build oidc token
        conjunct1[OF both] conjunct2[OF both]]
    show "returned_at (Configure env pid cl req) = Some 150"
      and "NewErrorDiagnostic ''Missing JFrog API key or Access Token''
              ''While configuring the provider, the API key or Access Token was not found in the environment variables or provider configuration attributes.''
              \<in> set (Diagnostics (Configure env pid cl req))"
      and "HasError (Diagnostics (Configure env pid cl req))"
      and "calls (Configure env pid cl req) =
              [CallBuild url pid,
               CallOIDCTokenExchange c (ValueString (OIDCProviderName (snd (ConfigGet req))))]"
      and "DataSourceData (Configure env pid cl req) = None"
      and "ResourceData (Configure env pid cl req) = None"
      unfolding eq by (simp_all add: response_defs set_AddError HasError_AddError)
  }
  assume cred: "ValueString (ApiKey (snd (ConfigGet req))) \<noteq> '''' \<or> token \<noteq> ''''"
  define c' where "c' = fst (AddAuth cl c (ValueString (ApiKey (snd (ConfigGet req)))) token)"
  obtain resp where eq: "Configure env pid cl req =
       Configure_preflight pid cl req (snd (ConfigGet req)) c' resp"
    and cr: "calls resp = [CallBuild url pid,
           CallOIDCTokenExchange c (ValueString (OIDCProviderName (snd (ConfigGet req)))),
           CallAddAuth c (ValueString (ApiKey (snd (ConfigGet req)))) token]"
    and ret: "returned_at resp = None"
    and dg: "Diagnostics resp =
           (case snd (AddAuth cl c (ValueString (ApiKey (snd (ConfigGet req)))) token) of
              Some err \<Rightarrow> AddError (Append [] (fst (ConfigGet req)))
                            ''Error adding Auth to Resty client'' err
            | None \<Rightarrow> Append [] (fst (ConfigGet req)))"
    unfolding c'_def by (rule Configure_reaches_preflight[OF noerr url ne build oidc token cred])
  from preflight_returned_at[OF ret, of pid cl req "snd (ConfigGet req)" c']
  show "returned_at (Configure env pid cl req) \<noteq> Some 150"
    unfolding eq by auto
  have "\<not> HasError (Append [] (fst (ConfigGet req)))"
    using noerr by (simp add: HasError_Append)
  then have "NewErrorDiagnostic ''Missing JFrog API key or Access Token''
              ''While configuring the provider, the API key or Access Token was not found in the environment variables or provider configuration attributes.''
              \<notin> set (Diagnostics resp)"
    unfolding dg
    by (simp add: set_AddError NewErrorDiagnostic_eq no_error_not_mem split: option.splits)
  then show "NewErrorDiagnostic ''Missing JFrog API key or Access Token''
              ''While configuring the provider, the API key or Access Token was not found in the environment variables or provider configuration attributes.''
              \<notin> set (Diagnostics (Configure env pid cl req))"
    unfolding eq
    using preflight_Diagnostics[of "NewErrorDiagnostic ''Missing JFrog API key or Access Token''
              ''While configuring the provider, the API key or Access Token was not found in the environment variables or provider configuration attributes.''"
        pid cl req "snd (ConfigGet req)" c' resp]
    by (auto simp: NewErrorDiagnostic_def)
  show "\<exists>rest. calls (Configure env pid cl req) =
               [CallBuild url pid,
                CallOIDCTokenExchange c (ValueString (OIDCProviderName (snd (ConfigGet req)))),
                CallAddAuth c (ValueString (ApiKey (snd (ConfigGet req)))) token] @ rest"
    unfolding eq cr[symmetric] by (rule preflight_calls_prefix)
qed

lemma run_nothing_set:
  "Configure Map.empty ''terraform-provider-artifactory/11.0.0''
     (example_server (Inl ''no identity token'') None (Inr ''7.90.1''))
     (example_request (example_config\<lparr>ApiKey := StringNull\<rparr>)) =
   \<lparr>Diagnostics = [NewErrorDiagnostic ''Missing JFrog API key or Access Token''
       ''While configuring the provider, the API key or Access Token was not found in the environment variables or provider configuration attributes.''],
    DataSourceData = None, ResourceData = None,
    calls = [CallBuild ''https://x.example/artifactory'' ''terraform-provider-artifactory/11.0.0'',
      CallOIDCTokenExchange \<lparr>BaseURL = ''https://x.example/artifactory'',
        UserAgent = ''terraform-provider-artifactory/11.0.0'', Credential = None\<rparr> ''''],
    returned_at = Some 150\<rparr>"
  by (simp add: eval_defs)

theorem Configure_credential_check_witness:
  "returned_at (Configure Map.empty ''terraform-provider-artifactory/11.0.0''
     (example_server (Inl ''no identity token'') None (Inr ''7.90.1''))
     (example_request (example_config\<lparr>ApiKey := StringNull\<rparr>))) = Some 150 \<and>
   returned_at (Configure Map.empty ''terraform-provider-artifactory/11.0.0''
     (example_server (Inl ''no identity token'') None (Inr ''7.90.1''))
     (example_request example_config)) \<noteq> Some 150"
proof -
  let ?srv = "example_server (Inl ''no identity token'') None (Inr ''7.90.1'')"
  let ?pid = "''terraform-provider-artifactory/11.0.0''"
  let ?url = "''https://x.example/artifactory''"
  let ?c = "\<lparr>BaseURL = ?url, UserAgent = ?pid, Credential = None\<rparr>"
  let ?req1 = "example_request (example_config\<lparr>ApiKey := StringNull\<rparr>)"
  let ?req2 = "example_request example_config"
  have build: "Build ?srv ?url ?pid = Inr ?c"
    by (simp add: example_server_def)
  have ne: "?url \<noteq> ''''" by simp
  have a1: "\<not> HasError (fst (ConfigGet ?req1))" by (simp add: example_request_def)
  have a2: "?url = (if ValueString (Url (snd (ConfigGet ?req1))) \<noteq> ''''
                then ValueString (Url (snd (ConfigGet ?req1)))
                else CheckEnvVars Map.empty [''JFROG_URL'', ''ARTIFACTORY_URL''] '''')"
    by (simp add: example_request_def example_config_def)
  have a3: "OIDCTokenExchange ?srv ?c (ValueString (OIDCProviderName (snd (ConfigGet ?req1)))) = Inr ''''"
    by (simp add: example_request_def example_config_def example_server_def)
  have a4: "'''' = (if ValueString (AccessToken (snd (ConfigGet ?req1))) \<noteq> ''''
                  then ValueString (AccessToken (snd (ConfigGet ?req1)))
                  else if '''' \<noteq> '''' then ''''
                  else CheckEnvVars Map.empty [''JFROG_ACCESS_TOKEN'', ''ARTIFACTORY_ACCESS_TOKEN''] '''')"
    by (simp add: example_request_def example_config_def Getenv_def)
  have a5: "ValueString (ApiKey (snd (ConfigGet ?req1))) = '''' \<and> '''' = ''''"
    by (simp add: example_request_def example_config_def)
  have b1: "\<not> HasError (fst (ConfigGet ?req2))" by (simp add: example_request_def)
  have b2: "?url = (if ValueString (Url (snd (ConfigGet ?req2))) \<noteq> ''''
                then ValueString (Url (snd (ConfigGet ?req2)))
                else CheckEnvVars Map.empty [''JFROG_URL'', ''ARTIFACTORY_URL''] '''')"
    by (simp add: example_request_def example_config_def)
  have b3: "OIDCTokenExchange ?srv ?c (ValueString (OIDCProviderName (snd (ConfigGet ?req2)))) = Inr ''''"
    by (simp add: example_request_def example_config_def example_server_def)
  have b4: "'''' = (if ValueString (AccessToken (snd (ConfigGet ?req2))) \<noteq> ''''
                  then ValueString (AccessToken (snd (ConfigGet ?req2)))
                  else if '''' \<noteq> '''' then ''''
                  else CheckEnvVars Map.empty [''JFROG_ACCESS_TOKEN'', ''ARTIFACTORY_ACCESS_TOKEN''] '''')"
    by (simp add: example_request_def example_config_def Getenv_def)
  have b5: "ValueString (ApiKey (snd (ConfigGet ?req2))) \<noteq> '''' \<or> '''' \<noteq> ''''"
    by (simp add: example_request_def example_config_def)
  from Configure_credential_check[OF a1 a2 ne build a3 a4, THEN conjunct1, THEN mp, OF a5]
  have a: "returned_at (Configure Map.empty ?pid ?srv ?req1) = Some 150"
    by (rule conjunct1)
  from Configure_credential_check[OF b1 b2 ne build b3 b4, THEN conjunct2, THEN mp, OF b5]
  have b: "returned_at (Configure Map.empty ?pid ?srv ?req2) \<noteq> Some 150"
    by (rule conjunct1)
  from a b show ?thesis by (rule conjI)
qed

subsection \<open>The OIDC exchange\<close>

text \<open>
  C5, as amended: \<open>Configure\<close> has no guard of its own on the provider name.
  On every run that gets past \<open>client.Build\<close> it calls
  \<open>util.OIDCTokenExchange\<close> once, right after \<open>client.Build\<close>, and passes the
  value of \<open>oidc_provider_name\<close>, the empty string when none is configured.
  Whenever that call returns an error, \<open>Configure\<close> ends at line 127 with the
  error "Failed OIDC ID token exchange" carrying the error's text: no other
  collaborator is called and no metadata is released.
\<close>

theorem Configure_oidc_exchange:
  fixes cl :: "'c collaborators"
  assumes noerr: "\<not> HasError (fst (ConfigGet req))"
    and url: "url = (if ValueString (Url (snd (ConfigGet req))) \<noteq> ''''
                then ValueString (Url (snd (ConfigGet req)))
                else CheckEnvVars env [''JFROG_URL'', ''ARTIFACTORY_URL''] '''')"
    and ne: "url \<noteq> ''''"
    and build: "Build cl url pid = Inr c"
  shows "(\<exists>rest. calls (Configure env pid cl req) =
            CallBuild url pid #
            CallOIDCTokenExchange c (ValueString (OIDCProviderName (snd (ConfigGet req)))) # rest \<and>
            (\<forall>x n. CallOIDCTokenExchange x n \<notin> set rest)) \<and>
         (\<forall>err. OIDCTokenExchange cl c (ValueString (OIDCProviderName (snd (ConfigGet req)))) = Inl err \<longrightarrow>
            calls (Configure env pid cl req) =
              [CallBuild url pid,
               CallOIDCTokenExchange c (ValueString (OIDCProviderName (snd (ConfigGet req))))] \<and>
            returned_at (Configure env pid cl req) = Some 127 \<and>
            NewErrorDiagnostic ''Failed OIDC ID token exchange'' err
              \<in> set (Diagnostics (Configure env pid cl req)) \<and>
            HasError (Diagnostics (Configure env pid cl req)) \<and>
            DataSourceData (Configure env pid cl req) = None \<and>
            ResourceData (Configure env pid cl req) = None)"
proof (intro conjI allI impI)
  define resp :: "'c ConfigureResponse" where "resp = record_call (CallBuild url pid)
            (new_response\<lparr>Diagnostics := Append [] (fst (ConfigGet req))\<rparr>)"
  have cr: "calls resp = [CallBuild url pid]" by (simp add: resp_def response_defs)
  have eq: "Configure env pid cl req = Configure_credentials pid cl req (snd (ConfigGet req))
         (CheckEnvVars env [''JFROG_ACCESS_TOKEN'', ''ARTIFACTORY_ACCESS_TOKEN''] '''') c resp"
    unfolding resp_def by (rule Configure_built[OF noerr url ne build])
  show "\<exists>rest. calls (Configure env pid cl req) =
            CallBuild url pid #
            CallOIDCTokenExchange c (ValueString (OIDCProviderName (snd (ConfigGet req)))) # rest \<and>
            (\<forall>x n. CallOIDCTokenExchange x n \<notin> set rest)"
    unfolding eq
    using credentials_calls_rest[of pid cl req "snd (ConfigGet req)"
        "CheckEnvVars env [''JFROG_ACCESS_TOKEN'', ''ARTIFACTORY_ACCESS_TOKEN''] ''''" c resp]
    unfolding cr by (elim exE conjE) simp
next
  fix err
  assume oidc: "OIDCTokenExchange cl c (ValueString (OIDCProviderName (snd (ConfigGet req)))) = Inl err"
  note eq = Configure_oidc_error[OF noerr url ne build oidc]
  show "calls (Configure env pid cl req) =
              [CallBuild url pid,
               CallOIDCTokenExchange c (ValueString (OIDCProviderName (snd (ConfigGet req))))]"
    and "returned_at (Configure env pid cl req) = Some 127"
    and "NewErrorDiagnostic ''Failed OIDC ID token exchange'' err
              \<in> set (Diagnostics (Configure env pid cl req))"
    and "HasError (Diagnostics (Configure env pid cl req))"
    and "DataSourceData (Configure env pid cl req) = None"
    and "ResourceData (Configure env pid cl req) = None"
    unfolding eq by (simp_all add: response_defs set_AddError HasError_AddError)
qed

lemma run_oidc_failure:
  "Configure Map.empty ''terraform-provider-artifactory/11.0.0''
     (example_server (Inl ''no identity token'') None (Inr ''7.90.1''))
     (example_request (example_config\<lparr>OIDCProviderName := StringValue ''tfc''\<rparr>)) =
   \<lparr>Diagnostics = [NewErrorDiagnostic ''Failed OIDC ID token exchange'' ''no identity token''],
    DataSourceData = None, ResourceData = None,
    calls = [CallBuild ''https://x.example/artifactory'' ''terraform-provider-artifactory/11.0.0'',
      CallOIDCTokenExchange \<lparr>BaseURL = ''https://x.example/artifactory'',
        UserAgent = ''terraform-provider-artifactory/11.0.0'', Credential = None\<rparr> ''tfc''],
    returned_at = Some 127\<rparr>"
  by (simp add: eval_defs)

theorem Configure_oidc_exchange_witness:
  "calls (Configure Map.empty ''terraform-provider-artifactory/11.0.0''
     (example_server (Inl ''no identity token'') None (Inr ''7.90.1''))
     (example_request (example_config\<lparr>OIDCProviderName := StringValue ''tfc''\<rparr>))) =
     [CallBuild ''https://x.example/artifactory'' ''terraform-provider-artifactory/11.0.0'',
      CallOIDCTokenExchange \<lparr>BaseURL = ''https://x.example/artifactory'',
        UserAgent = ''terraform-provider-artifactory/11.0.0'', Credential = None\<rparr>
        (ValueString (OIDCProviderName (snd (ConfigGet
           (example_request (example_config\<lparr>OIDCProviderName := StringValue ''tfc''\<rparr>))))))] \<and>
   returned_at (Configure Map.empty ''terraform-provider-artifactory/11.0.0''
     (example_server (Inl ''no identity token'') None (Inr ''7.90.1''))
     (example_request (example_config\<lparr>OIDCProviderName := StringValue ''tfc''\<rparr>))) = Some 127"
proof -
  let ?srv = "example_server (Inl ''no identity token'') None (Inr ''7.90.1'')"
  let ?pid = "''terraform-provider-artifactory/11.0.0''"
  let ?url = "''https://x.example/artifactory''"
  let ?c = "\<lparr>BaseURL = ?url, UserAgent = ?pid, Credential = None\<rparr>"
  let ?req = "example_request (example_config\<lparr>OIDCProviderName := StringValue ''tfc''\<rparr>)"
  have build: "Build ?srv ?url ?pid = Inr ?c"
    by (simp add: example_server_def)
  have ne: "?url \<noteq> ''''" by simp
  have a1: "\<not> HasError (fst (ConfigGet ?req))" by (simp add: example_request_def)
  have a2: "?url = (if ValueString (Url (snd (ConfigGet ?req))) \<noteq> ''''
                then ValueString (Url (snd (ConfigGet ?req)))
                else CheckEnvVars Map.empty [''JFROG_URL'', ''ARTIFACTORY_URL''] '''')"
    by (simp add: example_request_def example_config_def)
  have a3: "OIDCTokenExchange ?srv ?c (ValueString (OIDCProviderName (snd (ConfigGet ?req))))
      = Inl ''no identity token''"
    by (simp add: example_request_def example_config_def example_server_def)
  from Configure_oidc_exchange[OF a1 a2 ne build, THEN conjunct2, THEN spec, THEN mp, OF a3]
  show ?thesis by blast
qed

text \<open>
  C5 as first stated, with no exchange call when no provider name is
  configured, fails on the example configuration, whose \<open>oidc_provider_name\<close>
  is null: the second call of the run is \<open>util.OIDCTokenExchange\<close> with the
  empty name.
\<close>

theorem Configure_oidc_unconfigured_counterexample:
  "OIDCProviderName example_config = StringNull \<and>
   calls (Configure Map.empty ''terraform-provider-artifactory/11.0.0''
     (example_server (Inl ''no identity token'') None (Inr ''7.90.1''))
     (example_request example_config)) ! 1 =
   CallOIDCTokenExchange \<lparr>BaseURL = ''https://x.example/artifactory'',
        UserAgent = ''terraform-provider-artifactory/11.0.0'', Credential = None\<rparr> ''''"
  unfolding run_api_key_only by (simp add: example_config_def)

subsection \<open>The access token and the credential\<close>

lemma Configure_authed_calls:
  fixes cl :: "'c collaborators"
  assumes noerr: "\<not> HasError (fst (ConfigGet req))"
    and url: "url = (if ValueString (Url (snd (ConfigGet req))) \<noteq> ''''
                then ValueString (Url (snd (ConfigGet req)))
                else CheckEnvVars env [''JFROG_URL'', ''ARTIFACTORY_URL''] '''')"
    and ne: "url \<noteq> ''''"
    and build: "Build cl url pid = Inr c"
    and oidc: "OIDCTokenExchange cl c (ValueString (OIDCProviderName (snd (ConfigGet req)))) = Inr oidc"
    and token: "token = (if ValueString (AccessToken (snd (ConfigGet req))) \<noteq> ''''
                  then ValueString (AccessToken (snd (ConfigGet req)))
                  else if oidc \<noteq> '''' then oidc
                  else CheckEnvVars env [''JFROG_ACCESS_TOKEN'', ''ARTIFACTORY_ACCESS_TOKEN''] '''')"
    and cred: "ValueString (ApiKey (snd (ConfigGet req))) \<noteq> '''' \<or> token \<noteq> ''''"
  shows "\<exists>rest. calls (Configure env pid cl req) =
            [CallBuild url pid,
             CallOIDCTokenExchange c (ValueString (OIDCProviderName (snd (ConfigGet req)))),
             CallAddAuth c (ValueString (ApiKey (snd (ConfigGet req)))) token] @ rest \<and>
            (\<forall>x a t. CallAddAuth x a t \<notin> set rest)"
    and "ResourceData (Configure env pid cl req) = Some m \<Longrightarrow>
           Client m = fst (AddAuth cl c (ValueString (ApiKey (snd (ConfigGet req)))) token)"
proof -
  define c' where "c' = fst (AddAuth cl c (ValueString (ApiKey (snd (ConfigGet req)))) token)"
  obtain resp where eq: "Configure env pid cl req =
       Configure_preflight pid cl req (snd (ConfigGet req)) c' resp"
    and cr: "calls resp = [CallBuild url pid,
           CallOIDCTokenExchange c (ValueString (OIDCProviderName (snd (ConfigGet req)))),
           CallAddAuth c (ValueString (ApiKey (snd (ConfigGet req)))) token]"
    and none: "DataSourceData resp = None" "ResourceData resp = None" "returned_at resp = None"
    unfolding c'_def by (rule Configure_reaches_preflight[OF noerr url ne build oidc token cred])
  show "\<exists>rest. calls (Configure env pid cl req) =
            [CallBuild url pid,
             CallOIDCTokenExchange c (ValueString (OIDCProviderName (snd (ConfigGet req)))),
             CallAddAuth c (ValueString (ApiKey (snd (ConfigGet req)))) token] @ rest \<and>
            (\<forall>x a t. CallAddAuth x a t \<notin> set rest)"
    unfolding eq cr[symmetric]
    using preflight_calls_rest[of pid cl req "snd (ConfigGet req)" c' resp]
    by (elim exE conjE) simp
  show "ResourceData (Configure env pid cl req) = Some m \<Longrightarrow>
           Client m = fst (AddAuth cl c (ValueString (ApiKey (snd (ConfigGet req)))) token)"
    using preflight_outcome(2)[OF none eq, of m] unfolding c'_def by simp
qed

lemma Configure_released:
  fixes cl :: "'c collaborators"
  assumes noerr: "\<not> HasError (fst (ConfigGet req))"
    and url: "url = (if ValueString (Url (snd (ConfigGet req))) \<noteq> ''''
                then ValueString (Url (snd (ConfigGet req)))
                else CheckEnvVars env [''JFROG_URL'', ''ARTIFACTORY_URL''] '''')"
    and ne: "url \<noteq> ''''"
    and build: "Build cl url pid = Inr c"
    and oidc: "OIDCTokenExchange cl c (ValueString (OIDCProviderName (snd (ConfigGet req)))) = Inr oidc"
    and token: "token = (if ValueString (AccessToken (snd (ConfigGet req))) \<noteq> ''''
                  then ValueString (AccessToken (snd (ConfigGet req)))
                  else if oidc \<noteq> '''' then oidc
                  else CheckEnvVars env [''JFROG_ACCESS_TOKEN'', ''ARTIFACTORY_ACCESS_TOKEN''] '''')"
    and cred: "ValueString (ApiKey (snd (ConfigGet req))) \<noteq> '''' \<or> token \<noteq> ''''"
    and auth: "AddAuth cl c (ValueString (ApiKey (snd (ConfigGet req)))) token = (c', None)"
    and lic: "IsNull (CheckLicense (snd (ConfigGet req))) \<or>
              ValueBool (CheckLicense (snd (ConfigGet req))) \<longrightarrow>
                CheckArtifactoryLicense cl c' [''Enterprise'', ''Commercial'', ''Edge''] = None"
    and ver: "GetArtifactoryVersion cl c' = Inr version"
  shows "\<not> HasError (Diagnostics (Configure env pid cl req))"
    and "returned_at (Configure env pid cl req) = None"
    and "DataSourceData (Configure env pid cl req) =
           Some \<lparr>Client = c', ProductId = pid, ArtifactoryVersion = version\<rparr>"
    and "ResourceData (Configure env pid cl req) =
           Some \<lparr>Client = c', ProductId = pid, ArtifactoryVersion = version\<rparr>"
proof -
  obtain resp where eq: "Configure env pid cl req =
       Configure_preflight pid cl req (snd (ConfigGet req))
         (fst (AddAuth cl c (ValueString (ApiKey (snd (ConfigGet req)))) token)) resp"
    and none: "returned_at resp = None"
    and dg: "Diagnostics resp =
           (case snd (AddAuth cl c (ValueString (ApiKey (snd (ConfigGet req)))) token) of
              Some err \<Rightarrow> AddError (Append [] (fst (ConfigGet req)))
                            ''Error adding Auth to Resty client'' err
            | None \<Rightarrow> Append [] (fst (ConfigGet req)))"
    by (rule Configure_reaches_preflight[OF noerr url ne build oidc token cred])
  have eq': "Configure env pid cl req =
       Configure_preflight pid cl req (snd (ConfigGet req)) c' resp"
    using eq unfolding auth by simp
  have dg': "Diagnostics resp = Append [] (fst (ConfigGet req))"
    using dg unfolding auth by simp
  note rel = preflight_released[OF lic ver, where pid=pid and req=req and ?resp0.0=resp]
  show "\<not> HasError (Diagnostics (Configure env pid cl req))"
    using noerr by (simp add: eq' rel response_defs dg' HasError_Append)
  show "returned_at (Configure env pid cl req) = None"
    using none by (simp add: eq' rel response_defs)
  show "DataSourceData (Configure env pid cl req) =
           Some \<lparr>Client = c', ProductId = pid, ArtifactoryVersion = version\<rparr>"
    by (simp add: eq' rel response_defs)
  show "ResourceData (Configure env pid cl req) =
           Some \<lparr>Client = c', ProductId = pid, ArtifactoryVersion = version\<rparr>"
    by (simp add: eq' rel response_defs)
qed

lemma AddAuth_model_credential:
  "apiKey \<noteq> '''' \<or> accessToken \<noteq> '''' \<Longrightarrow>
   AddAuth_model c apiKey accessToken =
     (c\<lparr>Credential := Some (if accessToken \<noteq> '''' then BearerToken accessToken
                              else ApiKeyHeader apiKey)\<rparr>, None)"
  by (auto simp: AddAuth_model_def)

text \<open>
  C2: once the client is built and the OIDC exchange has returned, the access
  token is the result of the chain of overrides: the first non-empty of
  \<open>JFROG_ACCESS_TOKEN\<close> and \<open>ARTIFACTORY_ACCESS_TOKEN\<close>, overridden by a non-empty
  exchanged token, overridden by a non-empty \<open>access_token\<close> attribute. It is
  handed to the one call of \<open>client.AddAuth\<close> together with the \<open>api_key\<close>
  attribute; there the token is attached when it is non-empty and the API key
  when it is not. With the API key alone, and the license check and version
  lookup succeeding, \<open>Configure\<close> runs to its end without an error and
  releases the client that carries the API key.
\<close>

theorem Configure_access_token_chain:
  fixes cl :: "resty_client collaborators"
  assumes noerr: "\<not> HasError (fst (ConfigGet req))"
    and url: "url = (if ValueString (Url (snd (ConfigGet req))) \<noteq> ''''
                then ValueString (Url (snd (ConfigGet req)))
                else CheckEnvVars env [''JFROG_URL'', ''ARTIFACTORY_URL''] '''')"
    and ne: "url \<noteq> ''''"
    and build: "Build cl url pid = Inr c"
    and oidc: "OIDCTokenExchange cl c (ValueString (OIDCProviderName (snd (ConfigGet req)))) = Inr oidc"
    and token: "token = (if ValueString (AccessToken (snd (ConfigGet req))) \<noteq> ''''
                  then ValueString (AccessToken (snd (ConfigGet req)))
                  else if oidc \<noteq> '''' then oidc
                  else if Getenv env ''JFROG_ACCESS_TOKEN'' \<noteq> ''''
                       then Getenv env ''JFROG_ACCESS_TOKEN''
                       else Getenv env ''ARTIFACTORY_ACCESS_TOKEN'')"
    and auth: "AddAuth cl = AddAuth_model"
  shows "(ValueString (ApiKey (snd (ConfigGet req))) \<noteq> '''' \<or> token \<noteq> '''' \<longrightarrow>
           (\<exists>rest. calls (Configure env pid cl req) =
              [CallBuild url pid,
               CallOIDCTokenExchange c (ValueString (OIDCProviderName (snd (ConfigGet req)))),
               CallAddAuth c (ValueString (ApiKey (snd (ConfigGet req)))) token] @ rest \<and>
              (\<forall>x a t. CallAddAuth x a t \<notin> set rest)) \<and>
           AddAuth cl c (ValueString (ApiKey (snd (ConfigGet req)))) token =
             (c\<lparr>Credential :=
                  Some (if token \<noteq> '''' then BearerToken token
                        else ApiKeyHeader (ValueString (ApiKey (snd (ConfigGet req)))))\<rparr>,
              None)) \<and>
         (\<forall>version.
            token = '''' \<and> ValueString (ApiKey (snd (ConfigGet req))) \<noteq> '''' \<and>
            (IsNull (CheckLicense (snd (ConfigGet req))) \<or>
             ValueBool (CheckLicense (snd (ConfigGet req))) \<longrightarrow>
               CheckArtifactoryLicense cl
                 (c\<lparr>Credential := Some (ApiKeyHeader (ValueString (ApiKey (snd (ConfigGet req)))))\<rparr>)
                 [''Enterprise'', ''Commercial'', ''Edge''] = None) \<and>
            GetArtifactoryVersion cl
              (c\<lparr>Credential := Some (ApiKeyHeader (ValueString (ApiKey (snd (ConfigGet req)))))\<rparr>)
              = Inr version \<longrightarrow>
            \<not> HasError (Diagnostics (Configure env pid cl req)) \<and>
            returned_at (Configure env pid cl req) = None \<and>
            DataSourceData (Configure env pid cl req) =
              Some \<lparr>Client = c\<lparr>Credential :=
                      Some (ApiKeyHeader (ValueString (ApiKey (snd (ConfigGet req)))))\<rparr>,
                    ProductId = pid, ArtifactoryVersion = version\<rparr> \<and>
            ResourceData (Configure env pid cl req) =
              Some \<lparr>Client = c\<lparr>Credential :=
                      Some (ApiKeyHeader (ValueString (ApiKey (snd (ConfigGet req)))))\<rparr>,
                    ProductId = pid, ArtifactoryVersion = version\<rparr>)"
proof -
  define k where "k = ValueString (ApiKey (snd (ConfigGet req)))"
  have token': "token = (if ValueString (AccessToken (snd (ConfigGet req))) \<noteq> ''''
                  then ValueString (AccessToken (snd (ConfigGet req)))
                  else if oidc \<noteq> '''' then oidc
                  else CheckEnvVars env [''JFROG_ACCESS_TOKEN'', ''ARTIFACTORY_ACCESS_TOKEN''] '''')"
    unfolding token by simp
  have first: "k \<noteq> '''' \<or> token \<noteq> '''' \<Longrightarrow>
           (\<exists>rest. calls (Configure env pid cl req) =
              [CallBuild url pid,
               CallOIDCTokenExchange c (ValueString (OIDCProviderName (snd (ConfigGet req)))),
               CallAddAuth c k token] @ rest \<and>
              (\<forall>x a t. CallAddAuth x a t \<notin> set rest)) \<and>
           AddAuth cl c k token =
             (c\<lparr>Credential :=
                  Some (if token \<noteq> '''' then BearerToken token else ApiKeyHeader k)\<rparr>, None)"
  proof -
    assume cred: "k \<noteq> '''' \<or> token \<noteq> ''''"
    then have cred': "ValueString (ApiKey (snd (ConfigGet req))) \<noteq> '''' \<or> token \<noteq> ''''"
      unfolding k_def .
    from Configure_authed_calls(1)[OF noerr url ne build oidc token' cred']
    have "\<exists>rest. calls (Configure env pid cl req) =
              [CallBuild url pid,
               CallOIDCTokenExchange c (ValueString (OIDCProviderName (snd (ConfigGet req)))),
               CallAddAuth c k token] @ rest \<and>
              (\<forall>x a t. CallAddAuth x a t \<notin> set rest)"
      unfolding k_def .
    moreover have "AddAuth cl c k token =
             (c\<lparr>Credential :=
                  Some (if token \<noteq> '''' then BearerToken token else ApiKeyHeader k)\<rparr>, None)"
      unfolding auth by (rule AddAuth_model_credential[OF cred])
    ultimately show ?thesis by (rule conjI)
  qed
  have second: "token = '''' \<and> k \<noteq> '''' \<and>
            (IsNull (CheckLicense (snd (ConfigGet req))) \<or>
             ValueBool (CheckLicense (snd (ConfigGet req))) \<longrightarrow>
               CheckArtifactoryLicense cl (c\<lparr>Credential := Some (ApiKeyHeader k)\<rparr>)
                 [''Enterprise'', ''Commercial'', ''Edge''] = None) \<and>
            GetArtifactoryVersion cl (c\<lparr>Credential := Some (ApiKeyHeader k)\<rparr>) = Inr version \<Longrightarrow>
            \<not> HasError (Diagnostics (Configure env pid cl req)) \<and>
            returned_at (Configure env pid cl req) = None \<and>
            DataSourceData (Configure env pid cl req) =
              Some \<lparr>Client = c\<lparr>Credential := Some (ApiKeyHeader k)\<rparr>,
                    ProductId = pid, ArtifactoryVersion = version\<rparr> \<and>
            ResourceData (Configure env pid cl req) =
              Some \<lparr>Client = c\<lparr>Credential := Some (ApiKeyHeader k)\<rparr>,
                    ProductId = pid, ArtifactoryVersion = version\<rparr>" for version
  proof -
    assume h: "token = '''' \<and> k \<noteq> '''' \<and>
            (IsNull (CheckLicense (snd (ConfigGet req))) \<or>
             ValueBool (CheckLicense (snd (ConfigGet req))) \<longrightarrow>
               CheckArtifactoryLicense cl (c\<lparr>Credential := Some (ApiKeyHeader k)\<rparr>)
                 [''Enterprise'', ''Commercial'', ''Edge''] = None) \<and>
            GetArtifactoryVersion cl (c\<lparr>Credential := Some (ApiKeyHeader k)\<rparr>) = Inr version"
    then have cred: "ValueString (ApiKey (snd (ConfigGet req))) \<noteq> '''' \<or> token \<noteq> ''''"
      unfolding k_def by blast
    have a: "AddAuth cl c (ValueString (ApiKey (snd (ConfigGet req)))) token =
        (c\<lparr>Credential := Some (ApiKeyHeader k)\<rparr>, None)"
      unfolding auth k_def[symmetric] using h by (simp add: AddAuth_model_def)
    from h have lic: "IsNull (CheckLicense (snd (ConfigGet req))) \<or>
             ValueBool (CheckLicense (snd (ConfigGet req))) \<longrightarrow>
               CheckArtifactoryLicense cl (c\<lparr>Credential := Some (ApiKeyHeader k)\<rparr>)
                 [''Enterprise'', ''Commercial'', ''Edge''] = None"
      and ver: "GetArtifactoryVersion cl (c\<lparr>Credential := Some (ApiKeyHeader k)\<rparr>) = Inr version"
      by blast+
    note rel = Configure_released[OF noerr url ne build oidc token' cred a lic ver]
    from rel(1) rel(2) rel(3) rel(4) show ?thesis by blast
  qed
  from first second show ?thesis unfolding k_def by blast
qed

theorem Configure_access_token_chain_witness:
  "(\<exists>rest. calls (Configure [''ARTIFACTORY_ACCESS_TOKEN'' \<mapsto> ''env-token'']
        ''terraform-provider-artifactory/11.0.0''
        (example_server (Inr '''') None (Inr ''7.90.1''))
        (example_request (example_config\<lparr>OIDCProviderName := StringValue ''tfc''\<rparr>))) =
      [CallBuild ''https://x.example/artifactory'' ''terraform-provider-artifactory/11.0.0'',
       CallOIDCTokenExchange \<lparr>BaseURL = ''https://x.example/artifactory'',
         UserAgent = ''terraform-provider-artifactory/11.0.0'', Credential = None\<rparr> ''tfc'',
       CallAddAuth \<lparr>BaseURL = ''https://x.example/artifactory'',
         UserAgent = ''terraform-provider-artifactory/11.0.0'', Credential = None\<rparr>
         ''k1'' ''env-token''] @ rest \<and>
      (\<forall>x a t. CallAddAuth x a t \<notin> set rest)) \<and>
   ResourceData (Configure Map.empty ''terraform-provider-artifactory/11.0.0''
        (example_server (Inl ''no identity token'') None (Inr ''7.90.1''))
        (example_request example_config)) =
     Some \<lparr>Client = \<lparr>BaseURL = ''https://x.example/artifactory'',
             UserAgent = ''terraform-provider-artifactory/11.0.0'',
             Credential = Some (ApiKeyHeader ''k1'')\<rparr>,
           ProductId = ''terraform-provider-artifactory/11.0.0'',
           ArtifactoryVersion = ''7.90.1''\<rparr>"
proof -
  let ?pid = "''terraform-provider-artifactory/11.0.0''"
  let ?url = "''https://x.example/artifactory''"
  let ?c = "\<lparr>BaseURL = ?url, UserAgent = ?pid, Credential = None\<rparr>"
  let ?srv1 = "example_server (Inr '''') None (Inr ''7.90.1'')"
  let ?env1 = "[''ARTIFACTORY_ACCESS_TOKEN'' \<mapsto> ''env-token'']"
  let ?req1 = "example_request (example_config\<lparr>OIDCProviderName := StringValue ''tfc''\<rparr>)"
  let ?srv2 = "example_server (Inl ''no identity token'') None (Inr ''7.90.1'')"
  let ?req2 = "example_request example_config"
  have ne: "?url \<noteq> ''''" by simp
  have k1: "ValueString (ApiKey (snd (ConfigGet ?req1))) = ''k1''"
    and n1: "ValueString (OIDCProviderName (snd (ConfigGet ?req1))) = ''tfc''"
    and k2: "ValueString (ApiKey (snd (ConfigGet ?req2))) = ''k1''"
    by (simp_all add: example_request_def example_config_def)
  have a1: "\<not> HasError (fst (ConfigGet ?req1))" by (simp add: example_request_def)
  have a2: "?url = (if ValueString (Url (snd (ConfigGet ?req1))) \<noteq> ''''
                then ValueString (Url (snd (ConfigGet ?req1)))
                else CheckEnvVars ?env1 [''JFROG_URL'', ''ARTIFACTORY_URL''] '''')"
    by (simp add: example_request_def example_config_def)
  have a3: "Build ?srv1 ?url ?pid = Inr ?c" by (simp add: example_server_def)
  have a4: "OIDCTokenExchange ?srv1 ?c (ValueString (OIDCProviderName (snd (ConfigGet ?req1)))) = Inr ''''"
    by (simp add: example_request_def example_config_def example_server_def)
  have a5: "''env-token'' = (if ValueString (AccessToken (snd (ConfigGet ?req1))) \<noteq> ''''
                  then ValueString (AccessToken (snd (ConfigGet ?req1)))
                  else if '''' \<noteq> '''' then ''''
                  else if Getenv ?env1 ''JFROG_ACCESS_TOKEN'' \<noteq> ''''
                       then Getenv ?env1 ''JFROG_ACCESS_TOKEN''
                       else Getenv ?env1 ''ARTIFACTORY_ACCESS_TOKEN'')"
    by (simp add: example_request_def example_config_def Getenv_def)
  have a6: "AddAuth ?srv1 = AddAuth_model" by (simp add: example_server_def)
  have a7: "ValueString (ApiKey (snd (ConfigGet ?req1))) \<noteq> '''' \<or> ''env-token'' \<noteq> ''''"
    by simp
  have b1: "\<not> HasError (fst (ConfigGet ?req2))" by (simp add: example_request_def)
  have b2: "?url = (if ValueString (Url (snd (ConfigGet ?req2))) \<noteq> ''''
                then ValueString (Url (snd (ConfigGet ?req2)))
                else CheckEnvVars Map.empty [''JFROG_URL'', ''ARTIFACTORY_URL''] '''')"
    by (simp add: example_request_def example_config_def)
  have b3: "Build ?srv2 ?url ?pid = Inr ?c" by (simp add: example_server_def)
  have b4: "OIDCTokenExchange ?srv2 ?c (ValueString (OIDCProviderName (snd (ConfigGet ?req2)))) = Inr ''''"
    by (simp add: example_request_def example_config_def example_server_def)
  have b5: "'''' = (if ValueString (AccessToken (snd (ConfigGet ?req2))) \<noteq> ''''
                  then ValueString (AccessToken (snd (ConfigGet ?req2)))
                  else if '''' \<noteq> '''' then ''''
                  else if Getenv Map.empty ''JFROG_ACCESS_TOKEN'' \<noteq> ''''
                       then Getenv Map.empty ''JFROG_ACCESS_TOKEN''
                       else Getenv Map.empty ''ARTIFACTORY_ACCESS_TOKEN'')"
    by (simp add: example_request_def example_config_def Getenv_def)
  have b6: "AddAuth ?srv2 = AddAuth_model" by (simp add: example_server_def)
  have b7: "'''' = '''' \<and> ValueString (ApiKey (snd (ConfigGet ?req2))) \<noteq> '''' \<and>
            (IsNull (CheckLicense (snd (ConfigGet ?req2))) \<or>
             ValueBool (CheckLicense (snd (ConfigGet ?req2))) \<longrightarrow>
               CheckArtifactoryLicense ?srv2
                 (?c\<lparr>Credential := Some (ApiKeyHeader (ValueString (ApiKey (snd (ConfigGet ?req2)))))\<rparr>)
                 [''Enterprise'', ''Commercial'', ''Edge''] = None) \<and>
            GetArtifactoryVersion ?srv2
              (?c\<lparr>Credential := Some (ApiKeyHeader (ValueString (ApiKey (snd (ConfigGet ?req2)))))\<rparr>)
              = Inr ''7.90.1''"
    by (simp add: example_request_def example_config_def example_server_def)
  from Configure_access_token_chain[OF a1 a2 ne a3 a4 a5 a6, THEN conjunct1, THEN mp, OF a7,
      THEN conjunct1]
  have a: "\<exists>rest. calls (Configure ?env1 ?pid ?srv1 ?req1) =
      [CallBuild ?url ?pid, CallOIDCTokenExchange ?c ''tfc'',
       CallAddAuth ?c ''k1'' ''env-token''] @ rest \<and>
      (\<forall>x a t. CallAddAuth x a t \<notin> set rest)"
    unfolding k1 n1 .
  from Configure_access_token_chain[OF b1 b2 ne b3 b4 b5 b6, THEN conjunct2, THEN spec,
      THEN mp, OF b7]
  have b: "ResourceData (Configure Map.empty ?pid ?srv2 ?req2) =
     Some \<lparr>Client = \<lparr>BaseURL = ?url, UserAgent = ?pid, Credential = Some (ApiKeyHeader ''k1'')\<rparr>,
           ProductId = ?pid, ArtifactoryVersion = ''7.90.1''\<rparr>"
    unfolding k2 by simp
  from a b show ?thesis by (rule conjI)
qed

text \<open>
  C3, as amended: the precedence among the credentials that resolve is, from
  the highest, the \<open>access_token\<close> attribute, the OIDC-exchanged token, the
  access token of the environment, the \<open>api_key\<close> attribute. The one that wins
  is the credential attached by the call of \<open>client.AddAuth\<close> and the
  credential of the client in any metadata released; in particular a
  non-empty \<open>access_token\<close> attribute is chosen even when the exchange
  returned a token.
\<close>

theorem Configure_credential_precedence:
  fixes cl :: "resty_client collaborators"
  assumes noerr: "\<not> HasError (fst (ConfigGet req))"
    and url: "url = (if ValueString (Url (snd (ConfigGet req))) \<noteq> ''''
                then ValueString (Url (snd (ConfigGet req)))
                else CheckEnvVars env [''JFROG_URL'', ''ARTIFACTORY_URL''] '''')"
    and ne: "url \<noteq> ''''"
    and build: "Build cl url pid = Inr c"
    and oidc: "OIDCTokenExchange cl c (ValueString (OIDCProviderName (snd (ConfigGet req)))) = Inr oidc"
    and envtok: "envtok = CheckEnvVars env [''JFROG_ACCESS_TOKEN'', ''ARTIFACTORY_ACCESS_TOKEN''] ''''"
    and cfgtok: "cfgtok = ValueString (AccessToken (snd (ConfigGet req)))"
    and apikey: "apikey = ValueString (ApiKey (snd (ConfigGet req)))"
    and auth: "AddAuth cl = AddAuth_model"
  shows "(cfgtok \<noteq> '''' \<longrightarrow>
            CallAddAuth c apikey cfgtok \<in> set (calls (Configure env pid cl req)) \<and>
            Credential (fst (AddAuth cl c apikey cfgtok)) = Some (BearerToken cfgtok) \<and>
            (\<forall>m. ResourceData (Configure env pid cl req) = Some m \<longrightarrow>
                 Credential (Client m) = Some (BearerToken cfgtok))) \<and>
         (cfgtok = '''' \<and> oidc \<noteq> '''' \<longrightarrow>
            CallAddAuth c apikey oidc \<in> set (calls (Configure env pid cl req)) \<and>
            Credential (fst (AddAuth cl c apikey oidc)) = Some (BearerToken oidc) \<and>
            (\<forall>m. ResourceData (Configure env pid cl req) = Some m \<longrightarrow>
                 Credential (Client m) = Some (BearerToken oidc))) \<and>
         (cfgtok = '''' \<and> oidc = '''' \<and> envtok \<noteq> '''' \<longrightarrow>
            CallAddAuth c apikey envtok \<in> set (calls (Configure env pid cl req)) \<and>
            Credential (fst (AddAuth cl c apikey envtok)) = Some (BearerToken envtok) \<and>
            (\<forall>m. ResourceData (Configure env pid cl req) = Some m \<longrightarrow>
                 Credential (Client m) = Some (BearerToken envtok))) \<and>
         (cfgtok = '''' \<and> oidc = '''' \<and> envtok = '''' \<and> apikey \<noteq> '''' \<longrightarrow>
            CallAddAuth c apikey '''' \<in> set (calls (Configure env pid cl req)) \<and>
            Credential (fst (AddAuth cl c apikey '''')) = Some (ApiKeyHeader apikey) \<and>
            (\<forall>m. ResourceData (Configure env pid cl req) = Some m \<longrightarrow>
                 Credential (Client m) = Some (ApiKeyHeader apikey)))"
proof -
  define r where "r = Configure env pid cl req"
  define token where "token = (if cfgtok \<noteq> '''' then cfgtok
      else if oidc \<noteq> '''' then oidc else envtok)"
  have token': "token = (if ValueString (AccessToken (snd (ConfigGet req))) \<noteq> ''''
                  then ValueString (AccessToken (snd (ConfigGet req)))
                  else if oidc \<noteq> '''' then oidc
                  else CheckEnvVars env [''JFROG_ACCESS_TOKEN'', ''ARTIFACTORY_ACCESS_TOKEN''] '''')"
    unfolding token_def cfgtok envtok ..
  have main: "CallAddAuth c apikey token \<in> set (calls r) \<and>
      Credential (fst (AddAuth cl c apikey token)) =
        Some (if token \<noteq> '''' then BearerToken token else ApiKeyHeader apikey) \<and>
      (\<forall>m. ResourceData r = Some m \<longrightarrow>
         Credential (Client m) =
           Some (if token \<noteq> '''' then BearerToken token else ApiKeyHeader apikey))"
    if cred: "apikey \<noteq> '''' \<or> token \<noteq> ''''"
  proof -
    from cred have cred': "ValueString (ApiKey (snd (ConfigGet req))) \<noteq> '''' \<or> token \<noteq> ''''"
      unfolding apikey .
    note facts = Configure_authed_calls[OF noerr url ne build oidc token' cred',
        folded apikey r_def]
    have a: "AddAuth cl c apikey token =
        (c\<lparr>Credential := Some (if token \<noteq> '''' then BearerToken token
                                 else ApiKeyHeader apikey)\<rparr>, None)"
      unfolding auth by (rule AddAuth_model_credential[OF cred])
    have "CallAddAuth c apikey token \<in> set (calls r)"
      using facts(1) by (elim exE conjE) simp
    moreover have "Credential (fst (AddAuth cl c apikey token)) =
        Some (if token \<noteq> '''' then BearerToken token else ApiKeyHeader apikey)"
      unfolding a by simp
    moreover have "\<forall>m. ResourceData r = Some m \<longrightarrow>
         Credential (Client m) =
           Some (if token \<noteq> '''' then BearerToken token else ApiKeyHeader apikey)"
    proof (intro allI impI)
      fix m assume "ResourceData r = Some m"
      from facts(2)[OF this] show "Credential (Client m) =
           Some (if token \<noteq> '''' then BearerToken token else ApiKeyHeader apikey)"
        unfolding a by simp
    qed
    ultimately show ?thesis by blast
  qed
  have c1: "cfgtok \<noteq> '''' \<Longrightarrow> token = cfgtok \<and> token \<noteq> ''''"
    and c2: "cfgtok = '''' \<and> oidc \<noteq> '''' \<Longrightarrow> token = oidc \<and> token \<noteq> ''''"
    and c3: "cfgtok = '''' \<and> oidc = '''' \<and> envtok \<noteq> '''' \<Longrightarrow> token = envtok \<and> token \<noteq> ''''"
    and c4: "cfgtok = '''' \<and> oidc = '''' \<and> envtok = '''' \<and> apikey \<noteq> '''' \<Longrightarrow>
             token = '''' \<and> apikey \<noteq> ''''"
    unfolding token_def by simp_all
  have "(cfgtok \<noteq> '''' \<longrightarrow>
            CallAddAuth c apikey cfgtok \<in> set (calls r) \<and>
            Credential (fst (AddAuth cl c apikey cfgtok)) = Some (BearerToken cfgtok) \<and>
            (\<forall>m. ResourceData r = Some m \<longrightarrow>
                 Credential (Client m) = Some (BearerToken cfgtok)))"
    using main c1 by auto
  moreover have "(cfgtok = '''' \<and> oidc \<noteq> '''' \<longrightarrow>
            CallAddAuth c apikey oidc \<in> set (calls r) \<and>
            Credential (fst (AddAuth cl c apikey oidc)) = Some (BearerToken oidc) \<and>
            (\<forall>m. ResourceData r = Some m \<longrightarrow>
                 Credential (Client m) = Some (BearerToken oidc)))"
    using main c2 by auto
  moreover have "(cfgtok = '''' \<and> oidc = '''' \<and> envtok \<noteq> '''' \<longrightarrow>
            CallAddAuth c apikey envtok \<in> set (calls r) \<and>
            Credential (fst (AddAuth cl c apikey envtok)) = Some (BearerToken envtok) \<and>
            (\<forall>m. ResourceData r = Some m \<longrightarrow>
                 Credential (Client m) = Some (BearerToken envtok)))"
    using main c3 by auto
  moreover have "(cfgtok = '''' \<and> oidc = '''' \<and> envtok = '''' \<and> apikey \<noteq> '''' \<longrightarrow>
            CallAddAuth c apikey '''' \<in> set (calls r) \<and>
            Credential (fst (AddAuth cl c apikey '''')) = Some (ApiKeyHeader apikey) \<and>
            (\<forall>m. ResourceData r = Some m \<longrightarrow>
                 Credential (Client m) = Some (ApiKeyHeader apikey)))"
    using main c4 by auto
  ultimately show ?thesis unfolding r_def by blast
qed

lemma run_all_sources:
  "Configure [''JFROG_ACCESS_TOKEN'' \<mapsto> ''env-token'']
     ''terraform-provider-artifactory/11.0.0''
     (example_server (Inr ''oidc-token'') None (Inr ''7.90.1''))
     (example_request (example_config\<lparr>AccessToken := StringValue ''config-token'',
        OIDCProviderName := StringValue ''tfc''\<rparr>)) =
   \<lparr>Diagnostics = [],
    DataSourceData = Some \<lparr>Client = \<lparr>BaseURL = ''https://x.example/artifactory'',
        UserAgent = ''terraform-provider-artifactory/11.0.0'',
        Credential = Some (BearerToken ''config-token'')\<rparr>,
      ProductId = ''terraform-provider-artifactory/11.0.0'', ArtifactoryVersion = ''7.90.1''\<rparr>,
    ResourceData = Some \<lparr>Client = \<lparr>BaseURL = ''https://x.example/artifactory'',
        UserAgent = ''terraform-provider-artifactory/11.0.0'',
        Credential = Some (BearerToken ''config-token'')\<rparr>,
      ProductId = ''terraform-provider-artifactory/11.0.0'', ArtifactoryVersion = ''7.90.1''\<rparr>,
    calls = [CallBuild ''https://x.example/artifactory'' ''terraform-provider-artifactory/11.0.0'',
      CallOIDCTokenExchange \<lparr>BaseURL = ''https://x.example/artifactory'',
        UserAgent = ''terraform-provider-artifactory/11.0.0'', Credential = None\<rparr> ''tfc'',
      CallAddAuth \<lparr>BaseURL = ''https://x.example/artifactory'',
        UserAgent = ''terraform-provider-artifactory/11.0.0'', Credential = None\<rparr>
        ''k1'' ''config-token'',
      CallCheckArtifactoryLicense \<lparr>BaseURL = ''https://x.example/artifactory'',
        UserAgent = ''terraform-provider-artifactory/11.0.0'',
        Credential = Some (BearerToken ''config-token'')\<rparr>
        [''Enterprise'', ''Commercial'', ''Edge''],
      CallGetArtifactoryVersion \<lparr>BaseURL = ''https://x.example/artifactory'',
        UserAgent = ''terraform-provider-artifactory/11.0.0'',
        Credential = Some (BearerToken ''config-token'')\<rparr>,
      CallSendUsage \<lparr>BaseURL = ''https://x.example/artifactory'',
        UserAgent = ''terraform-provider-artifactory/11.0.0'',
        Credential = Some (BearerToken ''config-token'')\<rparr>
        ''terraform-provider-artifactory/11.0.0'' ''Terraform/1.5.7''],
    returned_at = None\<rparr>"
  by (simp add: eval_defs)

theorem Configure_credential_precedence_witness:
  "CallAddAuth \<lparr>BaseURL = ''https://x.example/artifactory'',
        UserAgent = ''terraform-provider-artifactory/11.0.0'', Credential = None\<rparr>
        ''k1'' ''config-token''
     \<in> set (calls (Configure [''JFROG_ACCESS_TOKEN'' \<mapsto> ''env-token'']
         ''terraform-provider-artifactory/11.0.0''
         (example_server (Inr ''oidc-token'') None (Inr ''7.90.1''))
         (example_request (example_config\<lparr>AccessToken := StringValue ''config-token'',
            OIDCProviderName := StringValue ''tfc''\<rparr>)))) \<and>
   CallAddAuth \<lparr>BaseURL = ''https://x.example/artifactory'',
        UserAgent = ''terraform-provider-artifactory/11.0.0'', Credential = None\<rparr>
        ''k1'' ''oidc-token''
     \<in> set (calls (Configure [''JFROG_ACCESS_TOKEN'' \<mapsto> ''env-token'']
         ''terraform-provider-artifactory/11.0.0''
         (example_server (Inr ''oidc-token'') None (Inr ''7.90.1''))
         (example_request (example_config\<lparr>OIDCProviderName := StringValue ''tfc''\<rparr>))))"
proof -
  let ?pid = "''terraform-provider-artifactory/11.0.0''"
  let ?url = "''https://x.example/artifactory''"
  let ?c = "\<lparr>BaseURL = ?url, UserAgent = ?pid, Credential = None\<rparr>"
  let ?srv = "example_server (Inr ''oidc-token'') None (Inr ''7.90.1'')"
  let ?env = "[''JFROG_ACCESS_TOKEN'' \<mapsto> ''env-token'']"
  let ?req1 = "example_request (example_config\<lparr>AccessToken := StringValue ''config-token'',
            OIDCProviderName := StringValue ''tfc''\<rparr>)"
  let ?req2 = "example_request (example_config\<lparr>OIDCProviderName := StringValue ''tfc''\<rparr>)"
  have ne: "?url \<noteq> ''''" by simp
  have build: "Build ?srv ?url ?pid = Inr ?c" by (simp add: example_server_def)
  have auth: "AddAuth ?srv = AddAuth_model" by (simp add: example_server_def)
  have envtok: "''env-token'' =
      CheckEnvVars ?env [''JFROG_ACCESS_TOKEN'', ''ARTIFACTORY_ACCESS_TOKEN''] ''''"
    by (simp add: Getenv_def)
  have a1: "\<not> HasError (fst (ConfigGet ?req1))" by (simp add: example_request_def)
  have a2: "?url = (if ValueString (Url (snd (ConfigGet ?req1))) \<noteq> ''''
                then ValueString (Url (snd (ConfigGet ?req1)))
                else CheckEnvVars ?env [''JFROG_URL'', ''ARTIFACTORY_URL''] '''')"
    by (simp add: example_request_def example_config_def)
  have a3: "OIDCTokenExchange ?srv ?c (ValueString (OIDCProviderName (snd (ConfigGet ?req1))))
      = Inr ''oidc-token''"
    by (simp add: example_request_def example_config_def example_server_def)
  have a4: "''config-token'' = ValueString (AccessToken (snd (ConfigGet ?req1)))"
    and a5: "''k1'' = ValueString (ApiKey (snd (ConfigGet ?req1)))"
    by (simp_all add: example_request_def example_config_def)
  have a6: "''config-token'' \<noteq> ''''" by simp
  have b1: "\<not> HasError (fst (ConfigGet ?req2))" by (simp add: example_request_def)
  have b2: "?url = (if ValueString (Url (snd (ConfigGet ?req2))) \<noteq> ''''
                then ValueString (Url (snd (ConfigGet ?req2)))
                else CheckEnvVars ?env [''JFROG_URL'', ''ARTIFACTORY_URL''] '''')"
    by (simp add: example_request_def example_config_def)
  have b3: "OIDCTokenExchange ?srv ?c (ValueString (OIDCProviderName (snd (ConfigGet ?req2))))
      = Inr ''oidc-token''"
    by (simp add: example_request_def example_config_def example_server_def)
  have b4: "'''' = ValueString (AccessToken (snd (ConfigGet ?req2)))"
    and b5: "''k1'' = ValueString (ApiKey (snd (ConfigGet ?req2)))"
    by (simp_all add: example_request_def example_config_def)
  have b6: "'''' = '''' \<and> ''oidc-token'' \<noteq> ''''" by simp
  from Configure_credential_precedence[OF a1 a2 ne build a3 envtok a4 a5 auth,
      THEN conjunct1, THEN mp, OF a6, THEN conjunct1]
  have a: "CallAddAuth ?c ''k1'' ''config-token'' \<in> set (calls (Configure ?env ?pid ?srv ?req1))" .
  from Configure_credential_precedence[OF b1 b2 ne build b3 envtok b4 b5 auth,
      THEN conjunct2, THEN conjunct1, THEN mp, OF b6, THEN conjunct1]
  have b: "CallAddAuth ?c ''k1'' ''oidc-token'' \<in> set (calls (Configure ?env ?pid ?srv ?req2))" .
  from a b show ?thesis by (rule conjI)
qed

text \<open>
  C3 as first stated, with the exchanged token above the \<open>access_token\<close>
  attribute, fails where the exchange returns \<open>oidc-token\<close> and the attribute
  is \<open>config-token\<close>: the attribute's token is passed to \<open>client.AddAuth\<close> and
  is the credential of the released client.
\<close>

theorem Configure_oidc_over_config_counterexample:
  "OIDCTokenExchange (example_server (Inr ''oidc-token'') None (Inr ''7.90.1''))
     \<lparr>BaseURL = ''https://x.example/artifactory'',
      UserAgent = ''terraform-provider-artifactory/11.0.0'', Credential = None\<rparr> ''tfc'' =
     Inr ''oidc-token'' \<and>
   calls (Configure [''JFROG_ACCESS_TOKEN'' \<mapsto> ''env-token'']
     ''terraform-provider-artifactory/11.0.0''
     (example_server (Inr ''oidc-token'') None (Inr ''7.90.1''))
     (example_request (example_config\<lparr>AccessToken := StringValue ''config-token'',
        OIDCProviderName := StringValue ''tfc''\<rparr>))) ! 2 =
     CallAddAuth \<lparr>BaseURL = ''https://x.example/artifactory'',
        UserAgent = ''terraform-provider-artifactory/11.0.0'', Credential = None\<rparr>
        ''k1'' ''config-token'' \<and>
   ResourceData (Configure [''JFROG_ACCESS_TOKEN'' \<mapsto> ''env-token'']
     ''terraform-provider-artifactory/11.0.0''
     (example_server (Inr ''oidc-token'') None (Inr ''7.90.1''))
     (example_request (example_config\<lparr>AccessToken := StringValue ''config-token'',
        OIDCProviderName := StringValue ''tfc''\<rparr>))) =
     Some \<lparr>Client = \<lparr>BaseURL = ''https://x.example/artifactory'',
        UserAgent = ''terraform-provider-artifactory/11.0.0'',
        Credential = Some (BearerToken ''config-token'')\<rparr>,
      ProductId = ''terraform-provider-artifactory/11.0.0'', ArtifactoryVersion = ''7.90.1''\<rparr>"
  unfolding run_all_sources by (simp add: example_server_def)

subsection \<open>The license check\<close>

text \<open>
  C8: once \<open>client.AddAuth\<close> has been called, the license check is called
  exactly when \<open>check_license\<close> is null or true, on the client that
  \<open>client.AddAuth\<close> returned and with the three allowed tiers. An error of the
  check ends \<open>Configure\<close> at line 167 with the error "Error checking
  Artifactory license": the version is not looked up and no metadata is
  released. With \<open>check_license\<close> set to false the check is not called,
  whatever it would answer, and \<open>Configure\<close> runs to its end without an error
  when \<open>client.AddAuth\<close> and the version lookup succeed.
\<close>

theorem Configure_license_check:
  fixes cl :: "'c collaborators"
  assumes noerr: "\<not> HasError (fst (ConfigGet req))"
    and url: "url = (if ValueString (Url (snd (ConfigGet req))) \<noteq> ''''
                then ValueString (Url (snd (ConfigGet req)))
                else CheckEnvVars env [''JFROG_URL'', ''ARTIFACTORY_URL''] '''')"
    and ne: "url \<noteq> ''''"
    and build: "Build cl url pid = Inr c"
    and oidc: "OIDCTokenExchange cl c (ValueString (OIDCProviderName (snd (ConfigGet req)))) = Inr oidc"
    and token: "token = (if ValueString (AccessToken (snd (ConfigGet req))) \<noteq> ''''
                  then ValueString (AccessToken (snd (ConfigGet req)))
                  else if oidc \<noteq> '''' then oidc
                  else CheckEnvVars env [''JFROG_ACCESS_TOKEN'', ''ARTIFACTORY_ACCESS_TOKEN''] '''')"
    and cred: "ValueString (ApiKey (snd (ConfigGet req))) \<noteq> '''' \<or> token \<noteq> ''''"
    and authed: "AddAuth cl c (ValueString (ApiKey (snd (ConfigGet req)))) token = (c', autherr)"
  shows "((\<exists>x ts. CallCheckArtifactoryLicense x ts \<in> set (calls (Configure env pid cl req))) \<longleftrightarrow>
            CheckLicense (snd (ConfigGet req)) = BoolNull \<or>
            CheckLicense (snd (ConfigGet req)) = BoolValue True) \<and>
         (\<forall>x ts. CallCheckArtifactoryLicense x ts \<in> set (calls (Configure env pid cl req)) \<longrightarrow>
            x = c' \<and> ts = [''Enterprise'', ''Commercial'', ''Edge'']) \<and>
         (\<forall>err. (CheckLicense (snd (ConfigGet req)) = BoolNull \<or>
                 CheckLicense (snd (ConfigGet req)) = BoolValue True) \<and>
                CheckArtifactoryLicense cl c' [''Enterprise'', ''Commercial'', ''Edge''] = Some err \<longrightarrow>
            returned_at (Configure env pid cl req) = Some 167 \<and>
            NewErrorDiagnostic ''Error checking Artifactory license'' err
              \<in> set (Diagnostics (Configure env pid cl req)) \<and>
            HasError (Diagnostics (Configure env pid cl req)) \<and>
            (\<forall>x. CallGetArtifactoryVersion x \<notin> set (calls (Configure env pid cl req))) \<and>
            DataSourceData (Configure env pid cl req) = None \<and>
            ResourceData (Configure env pid cl req) = None) \<and>
         (\<forall>version. CheckLicense (snd (ConfigGet req)) = BoolValue False \<and> autherr = None \<and>
                GetArtifactoryVersion cl c' = Inr version \<longrightarrow>
            \<not> HasError (Diagnostics (Configure env pid cl req)) \<and>
            returned_at (Configure env pid cl req) = None \<and>
            DataSourceData (Configure env pid cl req) =
              Some \<lparr>Client = c', ProductId = pid, ArtifactoryVersion = version\<rparr> \<and>
            ResourceData (Configure env pid cl req) =
              Some \<lparr>Client = c', ProductId = pid, ArtifactoryVersion = version\<rparr>)"
proof -
  define r where "r = Configure env pid cl req"
  define config where "config = snd (ConfigGet req)"
  obtain resp where eq0: "Configure env pid cl req =
       Configure_preflight pid cl req (snd (ConfigGet req))
         (fst (AddAuth cl c (ValueString (ApiKey (snd (ConfigGet req)))) token)) resp"
    and cr: "calls resp = [CallBuild url pid,
           CallOIDCTokenExchange c (ValueString (OIDCProviderName (snd (ConfigGet req)))),
           CallAddAuth c (ValueString (ApiKey (snd (ConfigGet req)))) token]"
    and none: "DataSourceData resp = None" "ResourceData resp = None"
    by (rule Configure_reaches_preflight[OF noerr url ne build oidc token cred])
  have eq: "r = Configure_preflight pid cl req config c' resp"
    unfolding r_def config_def using eq0 unfolding authed by simp
  have lic_call: "CallCheckArtifactoryLicense x ts \<in> set (calls r) \<longleftrightarrow>
      (config_license_on \<and> x = c' \<and> ts = [''Enterprise'', ''Commercial'', ''Edge''])"
    if "config_license_on = (CheckLicense config = BoolNull \<or> CheckLicense config = BoolValue True)"
    for x ts config_license_on
    unfolding eq preflight_license_call cr that license_enabled_iff by simp
  have p1: "(\<exists>x ts. CallCheckArtifactoryLicense x ts \<in> set (calls r)) \<longleftrightarrow>
            CheckLicense config = BoolNull \<or> CheckLicense config = BoolValue True"
    using lic_call[OF refl] by blast
  have p2: "\<forall>x ts. CallCheckArtifactoryLicense x ts \<in> set (calls r) \<longrightarrow>
            x = c' \<and> ts = [''Enterprise'', ''Commercial'', ''Edge'']"
    using lic_call[OF refl] by simp
  have p3: "\<forall>err. (CheckLicense config = BoolNull \<or> CheckLicense config = BoolValue True) \<and>
           CheckArtifactoryLicense cl c' [''Enterprise'', ''Commercial'', ''Edge''] = Some err \<longrightarrow>
            returned_at r = Some 167 \<and>
            NewErrorDiagnostic ''Error checking Artifactory license'' err \<in> set (Diagnostics r) \<and>
            HasError (Diagnostics r) \<and>
            (\<forall>x. CallGetArtifactoryVersion x \<notin> set (calls r)) \<and>
            DataSourceData r = None \<and> ResourceData r = None"
  proof (intro allI impI)
    fix err
    assume h: "(CheckLicense config = BoolNull \<or> CheckLicense config = BoolValue True) \<and>
           CheckArtifactoryLicense cl c' [''Enterprise'', ''Commercial'', ''Edge''] = Some err"
    from h have on: "IsNull (CheckLicense config) \<or> ValueBool (CheckLicense config)"
      unfolding license_enabled_iff by (rule conjunct1)
    from h have e: "CheckArtifactoryLicense cl c' [''Enterprise'', ''Commercial'', ''Edge''] = Some err"
      by (rule conjunct2)
    note eq' = eq[unfolded preflight_license_error[OF on e]]
    have "returned_at r = Some 167" unfolding eq' by (simp add: response_defs)
    moreover have "NewErrorDiagnostic ''Error checking Artifactory license'' err
        \<in> set (Diagnostics r)"
      unfolding eq' by (simp add: response_defs set_AddError)
    moreover have "HasError (Diagnostics r)"
      unfolding eq' by (simp add: response_defs HasError_AddError)
    moreover have "\<forall>x. CallGetArtifactoryVersion x \<notin> set (calls r)"
      unfolding eq' by (simp add: response_defs cr)
    moreover have "DataSourceData r = None" "ResourceData r = None"
      unfolding eq' using none by (simp_all add: response_defs)
    ultimately show "returned_at r = Some 167 \<and>
            NewErrorDiagnostic ''Error checking Artifactory license'' err \<in> set (Diagnostics r) \<and>
            HasError (Diagnostics r) \<and>
            (\<forall>x. CallGetArtifactoryVersion x \<notin> set (calls r)) \<and>
            DataSourceData r = None \<and> ResourceData r = None"
      by (intro conjI)
  qed
  have p4: "\<forall>version. CheckLicense config = BoolValue False \<and> autherr = None \<and>
           GetArtifactoryVersion cl c' = Inr version \<longrightarrow>
            \<not> HasError (Diagnostics r) \<and> returned_at r = None \<and>
            DataSourceData r = Some \<lparr>Client = c', ProductId = pid, ArtifactoryVersion = version\<rparr> \<and>
            ResourceData r = Some \<lparr>Client = c', ProductId = pid, ArtifactoryVersion = version\<rparr>"
  proof (intro allI impI)
    fix version
    assume h: "CheckLicense config = BoolValue False \<and> autherr = None \<and>
           GetArtifactoryVersion cl c' = Inr version"
    from h have a: "AddAuth cl c (ValueString (ApiKey (snd (ConfigGet req)))) token = (c', None)"
      using authed by simp
    from h have lic: "IsNull (CheckLicense (snd (ConfigGet req))) \<or>
              ValueBool (CheckLicense (snd (ConfigGet req))) \<longrightarrow>
                CheckArtifactoryLicense cl c' [''Enterprise'', ''Commercial'', ''Edge''] = None"
      unfolding config_def by simp
    from h have ver: "GetArtifactoryVersion cl c' = Inr version" by simp
    note rel = Configure_released[OF noerr url ne build oidc token cred a lic ver, folded r_def]
    show "\<not> HasError (Diagnostics r) \<and> returned_at r = None \<and>
            DataSourceData r = Some \<lparr>Client = c', ProductId = pid, ArtifactoryVersion = version\<rparr> \<and>
            ResourceData r = Some \<lparr>Client = c', ProductId = pid, ArtifactoryVersion = version\<rparr>"
      by (intro conjI rel)
  qed
  show ?thesis
    unfolding r_def[symmetric] config_def[symmetric]
    by (rule conjI[OF p1 conjI[OF p2 conjI[OF p3 p4]]])
qed

theorem Configure_license_check_witness:
  "returned_at (Configure Map.empty ''terraform-provider-artifactory/11.0.0''
     (example_server (Inl ''no identity token'') (Some ''license type OSS is not allowed'')
        (Inr ''7.90.1''))
     (example_request example_config)) = Some 167 \<and>
   ResourceData (Configure Map.empty ''terraform-provider-artifactory/11.0.0''
     (example_server (Inl ''no identity token'') (Some ''license type OSS is not allowed'')
        (Inr ''7.90.1''))
     (example_request (example_config\<lparr>CheckLicense := BoolValue False\<rparr>))) =
     Some \<lparr>Client = \<lparr>BaseURL = ''https://x.example/artifactory'',
             UserAgent = ''terraform-provider-artifactory/11.0.0'',
             Credential = Some (ApiKeyHeader ''k1'')\<rparr>,
           ProductId = ''terraform-provider-artifactory/11.0.0'',
           ArtifactoryVersion = ''7.90.1''\<rparr>"
proof -
  let ?pid = "''terraform-provider-artifactory/11.0.0''"
  let ?url = "''https://x.example/artifactory''"
  let ?c = "\<lparr>BaseURL = ?url, UserAgent = ?pid, Credential = None\<rparr>"
  let ?c' = "\<lparr>BaseURL = ?url, UserAgent = ?pid, Credential = Some (ApiKeyHeader ''k1'')\<rparr>"
  let ?srv = "example_server (Inl ''no identity token'') (Some ''license type OSS is not allowed'')
        (Inr ''7.90.1'')"
  let ?req1 = "example_request example_config"
  let ?req2 = "example_request (example_config\<lparr>CheckLicense := BoolValue False\<rparr>)"
  have ne: "?url \<noteq> ''''" by simp
  have build: "Build ?srv ?url ?pid = Inr ?c" by (simp add: example_server_def)
  have a1: "\<not> HasError (fst (ConfigGet ?req1))" by (simp add: example_request_def)
  have a2: "?url = (if ValueString (Url (snd (ConfigGet ?req1))) \<noteq> ''''
                then ValueString (Url (snd (ConfigGet ?req1)))
                else CheckEnvVars Map.empty [''JFROG_URL'', ''ARTIFACTORY_URL''] '''')"
    by (simp add: example_request_def example_config_def)
  have a3: "OIDCTokenExchange ?srv ?c (ValueString (OIDCProviderName (snd (ConfigGet ?req1)))) = Inr ''''"
    by (simp add: example_request_def example_config_def example_server_def)
  have a4: "'''' = (if ValueString (AccessToken (snd (ConfigGet ?req1))) \<noteq> ''''
                  then ValueString (AccessToken (snd (ConfigGet ?req1)))
                  else if '''' \<noteq> '''' then ''''
                  else CheckEnvVars Map.empty [''JFROG_ACCESS_TOKEN'', ''ARTIFACTORY_ACCESS_TOKEN''] '''')"
    by (simp add: example_request_def example_config_def Getenv_def)
  have a5: "ValueString (ApiKey (snd (ConfigGet ?req1))) \<noteq> '''' \<or> '''' \<noteq> ''''"
    by (simp add: example_request_def example_config_def)
  have a6: "AddAuth ?srv ?c (ValueString (ApiKey (snd (ConfigGet ?req1)))) '''' = (?c', None)"
    by (simp add: example_request_def example_config_def example_server_def AddAuth_model_def)
  have a7: "(CheckLicense (snd (ConfigGet ?req1)) = BoolNull \<or>
             CheckLicense (snd (ConfigGet ?req1)) = BoolValue True) \<and>
            CheckArtifactoryLicense ?srv ?c' [''Enterprise'', ''Commercial'', ''Edge''] =
              Some ''license type OSS is not allowed''"
    by (simp add: example_request_def example_config_def example_server_def)
  have b1: "\<not> HasError (fst (ConfigGet ?req2))" by (simp add: example_request_def)
  have b2: "?url = (if ValueString (Url (snd (ConfigGet ?req2))) \<noteq> ''''
                then ValueString (Url (snd (ConfigGet ?req2)))
                else CheckEnvVars Map.empty [''JFROG_URL'', ''ARTIFACTORY_URL''] '''')"
    by (simp add: example_request_def example_config_def)
  have b3: "OIDCTokenExchange ?srv ?c (ValueString (OIDCProviderName (snd (ConfigGet ?req2)))) = Inr ''''"
    by (simp add: example_request_def example_config_def example_server_def)
  have b4: "'''' = (if ValueString (AccessToken (snd (ConfigGet ?req2))) \<noteq> ''''
                  then ValueString (AccessToken (snd (ConfigGet ?req2)))
                  else if '''' \<noteq> '''' then ''''
                  else CheckEnvVars Map.empty [''JFROG_ACCESS_TOKEN'', ''ARTIFACTORY_ACCESS_TOKEN''] '''')"
    by (simp add: example_request_def example_config_def Getenv_def)
  have b5: "ValueString (ApiKey (snd (ConfigGet ?req2))) \<noteq> '''' \<or> '''' \<noteq> ''''"
    by (simp add: example_request_def example_config_def)
  have b6: "AddAuth ?srv ?c (ValueString (ApiKey (snd (ConfigGet ?req2)))) '''' = (?c', None)"
    by (simp add: example_request_def example_config_def example_server_def AddAuth_model_def)
  have b7: "CheckLicense (snd (ConfigGet ?req2)) = BoolValue False \<and> None = None \<and>
            GetArtifactoryVersion ?srv ?c' = Inr ''7.90.1''"
    by (simp add: example_request_def example_config_def example_server_def)
  from Configure_license_check[OF a1 a2 ne build a3 a4 a5 a6, THEN conjunct2, THEN conjunct2,
      THEN conjunct1, THEN spec, THEN mp, OF a7, THEN conjunct1]
  have a: "returned_at (Configure Map.empty ?pid ?srv ?req1) = Some 167" .
  from Configure_license_check[OF b1 b2 ne build b3 b4 b5 b6, THEN conjunct2, THEN conjunct2,
      THEN conjunct2, THEN spec, THEN mp, OF b7]
  have b: "ResourceData (Configure Map.empty ?pid ?srv ?req2) =
      Some \<lparr>Client = ?c', ProductId = ?pid, ArtifactoryVersion = ''7.90.1''\<rparr>"
    by simp
  from a b show ?thesis by (rule conjI)
qed

subsection \<open>The version lookup\<close>

text \<open>
  C1, as amended: when every step up to the license check has passed and the
  version lookup fails, \<open>Configure\<close> records the diagnostic "Error getting
  Artifactory version", whose detail ends with the text of the lookup's
  error, and returns at once (line 177): the usage report is not sent and no
  metadata is released, so no \<open>ArtifactoryVersion\<close>, empty or not, reaches the
  resources and data sources.
\<close>

theorem Configure_version_lookup_failure:
  fixes cl :: "'c collaborators"
  assumes noerr: "\<not> HasError (fst (ConfigGet req))"
    and url: "url = (if ValueString (Url (snd (ConfigGet req))) \<noteq> ''''
                then ValueString (Url (snd (ConfigGet req)))
                else CheckEnvVars env [''JFROG_URL'', ''ARTIFACTORY_URL''] '''')"
    and ne: "url \<noteq> ''''"
    and build: "Build cl url pid = Inr c"
    and oidc: "OIDCTokenExchange cl c (ValueString (OIDCProviderName (snd (ConfigGet req)))) = Inr oidc"
    and token: "token = (if ValueString (AccessToken (snd (ConfigGet req))) \<noteq> ''''
                  then ValueString (AccessToken (snd (ConfigGet req)))
                  else if oidc \<noteq> '''' then oidc
                  else CheckEnvVars env [''JFROG_ACCESS_TOKEN'', ''ARTIFACTORY_ACCESS_TOKEN''] '''')"
    and cred: "ValueString (ApiKey (snd (ConfigGet req))) \<noteq> '''' \<or> token \<noteq> ''''"
    and authed: "AddAuth cl c (ValueString (ApiKey (snd (ConfigGet req)))) token = (c', autherr)"
    and lic: "IsNull (CheckLicense (snd (ConfigGet req))) \<or>
              ValueBool (CheckLicense (snd (ConfigGet req))) \<longrightarrow>
                CheckArtifactoryLicense cl c' [''Enterprise'', ''Commercial'', ''Edge''] = None"
    and ver: "GetArtifactoryVersion cl c' = Inl err"
  shows "returned_at (Configure env pid cl req) = Some 177 \<and>
         (\<exists>d \<in> set (Diagnostics (Configure env pid cl req)).
            Summary d = ''Error getting Artifactory version'' \<and>
            Detail d = ''The provider functionality might be affected by the absence of Artifactory version in the context. '' @ err) \<and>
         (\<forall>x p u. CallSendUsage x p u \<notin> set (calls (Configure env pid cl req))) \<and>
         DataSourceData (Configure env pid cl req) = None \<and>
         ResourceData (Configure env pid cl req) = None"
proof -
  define r where "r = Configure env pid cl req"
  define config where "config = snd (ConfigGet req)"
  obtain resp where eq0: "Configure env pid cl req =
       Configure_preflight pid cl req (snd (ConfigGet req))
         (fst (AddAuth cl c (ValueString (ApiKey (snd (ConfigGet req)))) token)) resp"
    and cr: "calls resp = [CallBuild url pid,
           CallOIDCTokenExchange c (ValueString (OIDCProviderName (snd (ConfigGet req)))),
           CallAddAuth c (ValueString (ApiKey (snd (ConfigGet req)))) token]"
    and none: "DataSourceData resp = None" "ResourceData resp = None"
    by (rule Configure_reaches_preflight[OF noerr url ne build oidc token cred])
  have eq: "r = Configure_preflight pid cl req config c' resp"
    unfolding r_def config_def using eq0 unfolding authed by simp
  have lic': "IsNull (CheckLicense config) \<or> ValueBool (CheckLicense config) \<longrightarrow>
        CheckArtifactoryLicense cl c' [''Enterprise'', ''Commercial'', ''Edge''] = None"
    using lic unfolding config_def .
  note eq' = eq[unfolded preflight_version_error[OF lic' ver]]
  have "returned_at r = Some 177" unfolding eq' by (simp add: response_defs)
  moreover have "\<exists>d \<in> set (Diagnostics r).
            Summary d = ''Error getting Artifactory version'' \<and>
            Detail d = ''The provider functionality might be affected by the absence of Artifactory version in the context. '' @ err"
    unfolding eq'
    by (rule bexI[where x = "NewErrorDiagnostic ''Error getting Artifactory version''
          (''The provider functionality might be affected by the absence of Artifactory version in the context. '' @ err)"])
      (simp_all add: response_defs set_AddError NewErrorDiagnostic_def)
  moreover have "\<forall>x p u. CallSendUsage x p u \<notin> set (calls r)"
    unfolding eq' by (simp add: response_defs cr)
  moreover have "DataSourceData r = None" "ResourceData r = None"
    unfolding eq' using none by (simp_all add: response_defs)
  ultimately show ?thesis unfolding r_def by (intro conjI)
qed

lemma run_version_failure:
  "Configure Map.empty ''terraform-provider-artifactory/11.0.0''
     (example_server (Inl ''no identity token'') None (Inl ''connection refused''))
     (example_request example_config) =
   \<lparr>Diagnostics = [\<lparr>Severity = SeverityError,
       Summary = ''Error getting Artifactory version'',
       Detail = ''The provider functionality might be affected by the absence of Artifactory version in the context. connection refused''\<rparr>],
    DataSourceData = None, ResourceData = None,
    calls = [CallBuild ''https://x.example/artifactory'' ''terraform-provider-artifactory/11.0.0'',
      CallOIDCTokenExchange \<lparr>BaseURL = ''https://x.example/artifactory'',
        UserAgent = ''terraform-provider-artifactory/11.0.0'', Credential = None\<rparr> '''',
      CallAddAuth \<lparr>BaseURL = ''https://x.example/artifactory'',
        UserAgent = ''terraform-provider-artifactory/11.0.0'', Credential = None\<rparr> ''k1'' '''',
      CallCheckArtifactoryLicense \<lparr>BaseURL = ''https://x.example/artifactory'',
        UserAgent = ''terraform-provider-artifactory/11.0.0'',
        Credential = Some (ApiKeyHeader ''k1'')\<rparr> [''Enterprise'', ''Commercial'', ''Edge''],
      CallGetArtifactoryVersion \<lparr>BaseURL = ''https://x.example/artifactory'',
        UserAgent = ''terraform-provider-artifactory/11.0.0'',
        Credential = Some (ApiKeyHeader ''k1'')\<rparr>],
    returned_at = Some 177\<rparr>"
  by (simp add: eval_defs)

theorem Configure_version_lookup_failure_witness:
  "returned_at (Configure Map.empty ''terraform-provider-artifactory/11.0.0''
     (example_server (Inl ''no identity token'') None (Inl ''connection refused''))
     (example_request example_config)) = Some 177 \<and>
   ResourceData (Configure Map.empty ''terraform-provider-artifactory/11.0.0''
     (example_server (Inl ''no identity token'') None (Inl ''connection refused''))
     (example_request example_config)) = None"
proof -
  let ?pid = "''terraform-provider-artifactory/11.0.0''"
  let ?url = "''https://x.example/artifactory''"
  let ?c = "\<lparr>BaseURL = ?url, UserAgent = ?pid, Credential = None\<rparr>"
  let ?c' = "\<lparr>BaseURL = ?url, UserAgent = ?pid, Credential = Some (ApiKeyHeader ''k1'')\<rparr>"
  let ?srv = "example_server (Inl ''no identity token'') None (Inl ''connection refused'')"
  let ?req = "example_request example_config"
  have ne: "?url \<noteq> ''''" by simp
  have build: "Build ?srv ?url ?pid = Inr ?c" by (simp add: example_server_def)
  have a1: "\<not> HasError (fst (ConfigGet ?req))" by (simp add: example_request_def)
  have a2: "?url = (if ValueString (Url (snd (ConfigGet ?req))) \<noteq> ''''
                then ValueString (Url (snd (ConfigGet ?req)))
                else CheckEnvVars Map.empty [''JFROG_URL'', ''ARTIFACTORY_URL''] '''')"
    by (simp add: example_request_def example_config_def)
  have a3: "OIDCTokenExchange ?srv ?c (ValueString (OIDCProviderName (snd (ConfigGet ?req)))) = Inr ''''"
    by (simp add: example_request_def example_config_def example_server_def)
  have a4: "'''' = (if ValueString (AccessToken (snd (ConfigGet ?req))) \<noteq> ''''
                  then ValueString (AccessToken (snd (ConfigGet ?req)))
                  else if '''' \<noteq> '''' then ''''
                  else CheckEnvVars Map.empty [''JFROG_ACCESS_TOKEN'', ''ARTIFACTORY_ACCESS_TOKEN''] '''')"
    by (simp add: example_request_def example_config_def Getenv_def)
  have a5: "ValueString (ApiKey (snd (ConfigGet ?req))) \<noteq> '''' \<or> '''' \<noteq> ''''"
    by (simp add: example_request_def example_config_def)
  have a6: "AddAuth ?srv ?c (ValueString (ApiKey (snd (ConfigGet ?req)))) '''' = (?c', None)"
    by (simp add: example_request_def example_config_def example_server_def AddAuth_model_def)
  have a7: "IsNull (CheckLicense (snd (ConfigGet ?req))) \<or>
            ValueBool (CheckLicense (snd (ConfigGet ?req))) \<longrightarrow>
              CheckArtifactoryLicense ?srv ?c' [''Enterprise'', ''Commercial'', ''Edge''] = None"
    by (simp add: example_server_def)
  have a8: "GetArtifactoryVersion ?srv ?c' = Inl ''connection refused''"
    by (simp add: example_server_def)
  note th = Configure_version_lookup_failure[OF a1 a2 ne build a3 a4 a5 a6 a7 a8]
  from th[THEN conjunct1] th[THEN conjunct2, THEN conjunct2, THEN conjunct2, THEN conjunct2]
  show ?thesis by (rule conjI)
qed

text \<open>
  C1 as first stated, with a warning and a released metadata whose version
  is empty, fails on a server whose version lookup is refused: the one
  diagnostic of the run is an error and no metadata is released.
\<close>

theorem Configure_version_warning_counterexample:
  "GetArtifactoryVersion
     (example_server (Inl ''no identity token'') None (Inl ''connection refused''))
     \<lparr>BaseURL = ''https://x.example/artifactory'',
      UserAgent = ''terraform-provider-artifactory/11.0.0'',
      Credential = Some (ApiKeyHeader ''k1'')\<rparr> = Inl ''connection refused'' \<and>
   Diagnostics (Configure Map.empty ''terraform-provider-artifactory/11.0.0''
     (example_server (Inl ''no identity token'') None (Inl ''connection refused''))
     (example_request example_config)) =
     [\<lparr>Severity = SeverityError, Summary = ''Error getting Artifactory version'',
       Detail = ''The provider functionality might be affected by the absence of Artifactory version in the context. connection refused''\<rparr>] \<and>
   HasError (Diagnostics (Configure Map.empty ''terraform-provider-artifactory/11.0.0''
     (example_server (Inl ''no identity token'') None (Inl ''connection refused''))
     (example_request example_config))) \<and>
   DataSourceData (Configure Map.empty ''terraform-provider-artifactory/11.0.0''
     (example_server (Inl ''no identity token'') None (Inl ''connection refused''))
     (example_request example_config)) = None \<and>
   ResourceData (Configure Map.empty ''terraform-provider-artifactory/11.0.0''
     (example_server (Inl ''no identity token'') None (Inl ''connection refused''))
     (example_request example_config)) = None"
  unfolding run_version_failure by (simp add: example_server_def)

subsection \<open>Errors of the client factory\<close>

text \<open>
  C4: an error of \<open>client.Build\<close> ends \<open>Configure\<close> at line 118, but the block
  that reports an error of \<open>client.AddAuth\<close> (lines 154 to 159) has no
  \<open>return\<close>. Run against a server whose \<open>client.AddAuth\<close> fails, \<open>Configure\<close>
  records "Error adding Auth to Resty client" and goes on: the license check,
  the version lookup and the usage report are called and the metadata is
  released.
\<close>

theorem Configure_AddAuth_error_goes_on:
  "Configure Map.empty ''terraform-provider-artifactory/11.0.0'' failing_auth_server
     (example_request example_config) =
   \<lparr>Diagnostics = [\<lparr>Severity = SeverityError,
       Summary = ''Error adding Auth to Resty client'', Detail = ''credentials rejected''\<rparr>],
    DataSourceData = Some \<lparr>Client = \<lparr>BaseURL = ''https://x.example/artifactory'',
        UserAgent = ''terraform-provider-artifactory/11.0.0'', Credential = None\<rparr>,
      ProductId = ''terraform-provider-artifactory/11.0.0'', ArtifactoryVersion = ''7.90.1''\<rparr>,
    ResourceData = Some \<lparr>Client = \<lparr>BaseURL = ''https://x.example/artifactory'',
        UserAgent = ''terraform-provider-artifactory/11.0.0'', Credential = None\<rparr>,
      ProductId = ''terraform-provider-artifactory/11.0.0'', ArtifactoryVersion = ''7.90.1''\<rparr>,
    calls = [CallBuild ''https://x.example/artifactory'' ''terraform-provider-artifactory/11.0.0'',
      CallOIDCTokenExchange \<lparr>BaseURL = ''https://x.example/artifactory'',
        UserAgent = ''terraform-provider-artifactory/11.0.0'', Credential = None\<rparr> '''',
      CallAddAuth \<lparr>BaseURL = ''https://x.example/artifactory'',
        UserAgent = ''terraform-provider-artifactory/11.0.0'', Credential = None\<rparr> ''k1'' '''',
      CallCheckArtifactoryLicense \<lparr>BaseURL = ''https://x.example/artifactory'',
        UserAgent = ''terraform-provider-artifactory/11.0.0'', Credential = None\<rparr>
        [''Enterprise'', ''Commercial'', ''Edge''],
      CallGetArtifactoryVersion \<lparr>BaseURL = ''https://x.example/artifactory'',
        UserAgent = ''terraform-provider-artifactory/11.0.0'', Credential = None\<rparr>,
      CallSendUsage \<lparr>BaseURL = ''https://x.example/artifactory'',
        UserAgent = ''terraform-provider-artifactory/11.0.0'', Credential = None\<rparr>
        ''terraform-provider-artifactory/11.0.0'' ''Terraform/1.5.7''],
    returned_at = None\<rparr>"
  by (simp add: eval_defs failing_auth_server_def)

subsection \<open>The client in the released metadata\<close>

text \<open>
  A run that releases metadata and records no error diagnostic releases the
  client that a call of \<open>client.AddAuth\<close> returned without error, for a
  credential pair that is not empty.
\<close>

lemma preflight_keeps_errors:
  "HasError (Diagnostics resp0) \<Longrightarrow>
   HasError (Diagnostics (Configure_preflight pid cl req config c resp0))"
  by (simp add: Configure_preflight_def Let_def response_defs HasError_AddError
      split: option.splits sum.splits)

lemma Configure_released_without_error:
  fixes cl :: "'c collaborators"
  assumes rel: "ResourceData (Configure env pid cl req) = Some m"
    and ok: "\<not> HasError (Diagnostics (Configure env pid cl req))"
  shows "\<exists>c k t. CallAddAuth c k t \<in> set (calls (Configure env pid cl req)) \<and>
           AddAuth cl c k t = (Client m, None) \<and> (k \<noteq> '''' \<or> t \<noteq> '''')"
proof (cases "HasError (fst (ConfigGet req))")
  case True
  from rel show ?thesis
    by (simp add: Configure_config_error[OF True] response_defs)
next
  case noerr: False
  define url where "url = (if ValueString (Url (snd (ConfigGet req))) \<noteq> ''''
                then ValueString (Url (snd (ConfigGet req)))
                else CheckEnvVars env [''JFROG_URL'', ''ARTIFACTORY_URL''] '''')"
  show ?thesis
  proof (cases "url = ''''")
    case True
    then have u: "ValueString (Url (snd (ConfigGet req))) = ''''"
      "CheckEnvVars env [''JFROG_URL'', ''ARTIFACTORY_URL''] '''' = ''''"
      unfolding url_def by (simp_all split: if_splits)
    from rel show ?thesis
      by (simp add: Configure_missing_url[OF noerr u] response_defs)
  next
    case ne: False
    show ?thesis
    proof (cases "Build cl url pid")
      case (Inl err)
      from rel show ?thesis
        by (simp add: Configure_build_error[OF noerr url_def ne Inl] response_defs)
    next
      case build: (Inr c)
      show ?thesis
      proof (cases "OIDCTokenExchange cl c (ValueString (OIDCProviderName (snd (ConfigGet req))))")
        case (Inl err)
        from rel show ?thesis
          by (simp add: Configure_oidc_error[OF noerr url_def ne build Inl] response_defs)
      next
        case oidc: (Inr oidc)
        define token where "token = (if ValueString (AccessToken (snd (ConfigGet req))) \<noteq> ''''
                  then ValueString (AccessToken (snd (ConfigGet req)))
                  else if oidc \<noteq> '''' then oidc
                  else CheckEnvVars env [''JFROG_ACCESS_TOKEN'', ''ARTIFACTORY_ACCESS_TOKEN''] '''')"
        define k where "k = ValueString (ApiKey (snd (ConfigGet req)))"
        show ?thesis
        proof (cases "k = '''' \<and> token = ''''")
          case True
          then have nk: "ValueString (ApiKey (snd (ConfigGet req))) = ''''" and nt: "token = ''''"
            unfolding k_def by simp_all
          from rel show ?thesis
            by (simp add: Configure_missing_credentials[OF noerr url_def ne build oidc token_def nk nt]
                response_defs)
        next
          case False
          then have cred: "ValueString (ApiKey (snd (ConfigGet req))) \<noteq> '''' \<or> token \<noteq> ''''"
            unfolding k_def by blast
          obtain resp where eq: "Configure env pid cl req =
              Configure_preflight pid cl req (snd (ConfigGet req))
                (fst (AddAuth cl c (ValueString (ApiKey (snd (ConfigGet req)))) token)) resp"
            and dg: "Diagnostics resp =
              (case snd (AddAuth cl c (ValueString (ApiKey (snd (ConfigGet req)))) token) of
                 Some err \<Rightarrow> AddError (Append [] (fst (ConfigGet req)))
                               ''Error adding Auth to Resty client'' err
               | None \<Rightarrow> Append [] (fst (ConfigGet req)))"
            by (rule Configure_reaches_preflight[OF noerr url_def ne build oidc token_def cred])
          note facts = Configure_authed_calls[OF noerr url_def ne build oidc token_def cred,
              folded k_def]
          have mem: "CallAddAuth c k token \<in> set (calls (Configure env pid cl req))"
            using facts(1) by (elim exE conjE) simp
          have cl_m: "Client m = fst (AddAuth cl c k token)"
            by (rule facts(2)[OF rel])
          have noautherr: "snd (AddAuth cl c k token) = None"
          proof (cases "snd (AddAuth cl c k token)")
            case None then show ?thesis .
          next
            case (Some err)
            then have "HasError (Diagnostics resp)"
              unfolding dg k_def[symmetric] by (simp add: HasError_AddError)
            from preflight_keeps_errors[OF this] ok show ?thesis
              unfolding eq by simp
          qed
          have "AddAuth cl c k token = (Client m, None)"
            using cl_m noautherr by (simp add: prod_eq_iff)
          moreover have "k \<noteq> '''' \<or> token \<noteq> ''''" using False by blast
          ultimately show ?thesis using mem by blast
        qed
      qed
    qed
  qed
qed

lemma run_auth_failure_with_token:
  "Configure Map.empty ''terraform-provider-artifactory/11.0.0'' failing_auth_server
     (example_request (example_config\<lparr>AccessToken := StringValue ''config-token''\<rparr>)) =
   \<lparr>Diagnostics = [\<lparr>Severity = SeverityError,
       Summary = ''Error adding Auth to Resty client'', Detail = ''credentials rejected''\<rparr>],
    DataSourceData = Some \<lparr>Client = \<lparr>BaseURL = ''https://x.example/artifactory'',
        UserAgent = ''terraform-provider-artifactory/11.0.0'', Credential = None\<rparr>,
      ProductId = ''terraform-provider-artifactory/11.0.0'', ArtifactoryVersion = ''7.90.1''\<rparr>,
    ResourceData = Some \<lparr>Client = \<lparr>BaseURL = ''https://x.example/artifactory'',
        UserAgent = ''terraform-provider-artifactory/11.0.0'', Credential = None\<rparr>,
      ProductId = ''terraform-provider-artifactory/11.0.0'', ArtifactoryVersion = ''7.90.1''\<rparr>,
    calls = [CallBuild ''https://x.example/artifactory'' ''terraform-provider-artifactory/11.0.0'',
      CallOIDCTokenExchange \<lparr>BaseURL = ''https://x.example/artifactory'',
        UserAgent = ''terraform-provider-artifactory/11.0.0'', Credential = None\<rparr> '''',
      CallAddAuth \<lparr>BaseURL = ''https://x.example/artifactory'',
        UserAgent = ''terraform-provider-artifactory/11.0.0'', Credential = None\<rparr>
        ''k1'' ''config-token'',
      CallCheckArtifactoryLicense \<lparr>BaseURL = ''https://x.example/artifactory'',
        UserAgent = ''terraform-provider-artifactory/11.0.0'', Credential = None\<rparr>
        [''Enterprise'', ''Commercial'', ''Edge''],
      CallGetArtifactoryVersion \<lparr>BaseURL = ''https://x.example/artifactory'',
        UserAgent = ''terraform-provider-artifactory/11.0.0'', Credential = None\<rparr>,
      CallSendUsage \<lparr>BaseURL = ''https://x.example/artifactory'',
        UserAgent = ''terraform-provider-artifactory/11.0.0'', Credential = None\<rparr>
        ''terraform-provider-artifactory/11.0.0'' ''Terraform/1.5.7''],
    returned_at = None\<rparr>"
  by (simp add: eval_defs failing_auth_server_def)

text \<open>
  C9: the metadata is written in one place (lines 183 to 190) and every
  \<open>return\<close> statement leaves it unset, but the client in it is the
  authenticated one only when \<open>client.AddAuth\<close> returned no error. The error
  block of \<open>client.AddAuth\<close> lacks the \<open>return\<close> that its siblings have, so a
  run against a server whose \<open>client.AddAuth\<close> fails releases, beside the error
  diagnostic, a client to which no credential was attached, although an
  access token and an API key are configured.
\<close>

theorem Configure_releases_unauthenticated_client:
  "AddAuth failing_auth_server
     \<lparr>BaseURL = ''https://x.example/artifactory'',
      UserAgent = ''terraform-provider-artifactory/11.0.0'', Credential = None\<rparr>
     ''k1'' ''config-token'' =
     (\<lparr>BaseURL = ''https://x.example/artifactory'',
       UserAgent = ''terraform-provider-artifactory/11.0.0'', Credential = None\<rparr>,
      Some ''credentials rejected'') \<and>
   HasError (Diagnostics (Configure Map.empty ''terraform-provider-artifactory/11.0.0''
     failing_auth_server
     (example_request (example_config\<lparr>AccessToken := StringValue ''config-token''\<rparr>)))) \<and>
   returned_at (Configure Map.empty ''terraform-provider-artifactory/11.0.0''
     failing_auth_server
     (example_request (example_config\<lparr>AccessToken := StringValue ''config-token''\<rparr>))) = None \<and>
   DataSourceData (Configure Map.empty ''terraform-provider-artifactory/11.0.0''
     failing_auth_server
     (example_request (example_config\<lparr>AccessToken := StringValue ''config-token''\<rparr>))) =
     Some \<lparr>Client = \<lparr>BaseURL = ''https://x.example/artifactory'',
        UserAgent = ''terraform-provider-artifactory/11.0.0'', Credential = None\<rparr>,
      ProductId = ''terraform-provider-artifactory/11.0.0'', ArtifactoryVersion = ''7.90.1''\<rparr> \<and>
   ResourceData (Configure Map.empty ''terraform-provider-artifactory/11.0.0''
     failing_auth_server
     (example_request (example_config\<lparr>AccessToken := StringValue ''config-token''\<rparr>))) =
     Some \<lparr>Client = \<lparr>BaseURL = ''https://x.example/artifactory'',
        UserAgent = ''terraform-provider-artifactory/11.0.0'', Credential = None\<rparr>,
      ProductId = ''terraform-provider-artifactory/11.0.0'', ArtifactoryVersion = ''7.90.1''\<rparr>"
  unfolding run_auth_failure_with_token by (simp add: failing_auth_server_def)

section \<open>Properties of the Gradle resource\<close>

text \<open>
  C10: the error that \<open>unPackLocalGradleRepository\<close> returns is nil for every
  resource data, and the constructor that
  \<open>resourceArtifactoryLocalGradleRepository\<close> hands to \<open>mkResourceSchema\<close>, next
  to that unpack function, produces parameters with package type \<open>gradle\<close> and
  repository class \<open>local\<close>.
\<close>

theorem unPackLocalGradleRepository_no_error:
  "snd (snd (unPackLocalGradleRepository h data)) = None \<and>
   resourceArtifactoryLocalGradleRepository (\<lambda>schema pack unpack construct. unpack)
       mergeSchema baseLocalRepoSchema universalPack h zero = unPackLocalGradleRepository h \<and>
   PackageType (BaseParams
     (resourceArtifactoryLocalGradleRepository (\<lambda>schema pack unpack construct. construct)
        mergeSchema baseLocalRepoSchema universalPack h zero ())) = ''gradle'' \<and>
   Rclass (BaseParams
     (resourceArtifactoryLocalGradleRepository (\<lambda>schema pack unpack construct. construct)
        mergeSchema baseLocalRepoSchema universalPack h zero ())) = ''local''"
  by (simp add: unPackLocalGradleRepository_def resourceArtifactoryLocalGradleRepository_def
      newGradleLocalRepositoryParams_def Let_def)

end
